theory Spec2Isabelle
  imports Complex_Main "HOL-Library.Sublist"
begin

section \<open>Exceptions of the Python run time\<close>

text \<open>
  The exceptions that the modelled code can raise. All of them are subclasses of
  Python's \<^verbatim>\<open>Exception\<close>, which is what the \<^verbatim>\<open>except Exception\<close>
  handlers of \<^verbatim>\<open>article.py\<close> catch. \<open>InvalidLiteral s\<close> is the
  \<^verbatim>\<open>ValueError\<close> that \<^verbatim>\<open>int\<close> raises on the text \<open>s\<close>: its message is
  \<^verbatim>\<open>invalid literal for int() with base 10:\<close> followed by the first 200 characters
  of \<^verbatim>\<open>repr(s)\<close>. The messages of the other exceptions of the modelled code are
  ASCII texts. A computation that may raise returns \<open>py_error + 'a\<close>, with \<open>Inl\<close> for
  the exception.
\<close>

datatype py_error =
  AttributeError | TypeError | ValueError | InvalidLiteral string | OverflowError
| UnicodeEncodeError

section \<open>helpers.py: batches\<close>

text \<open>
  \<^verbatim>\<open>for index in range(0, length, n): yield iterable[index : min(index + n, length)]\<close>

  \<open>batches_from\<close> is the loop for a positive step, started at \<open>index\<close>; the slice
  \<^verbatim>\<open>iterable[index : stop]\<close> with \<open>index \<le> stop \<le> length\<close> is
  \<open>take (stop - index) (drop index iterable)\<close>. \<open>batches\<close> adds what
  \<^verbatim>\<open>range\<close> does with the other steps: a zero step raises \<^verbatim>\<open>ValueError\<close>,
  a negative step from 0 up to a non-negative length is the empty range. The generator
  is modelled by the list of everything it yields.
\<close>

function batches_from :: "'a list \<Rightarrow> nat \<Rightarrow> nat \<Rightarrow> 'a list list" where
  "batches_from iterable n index =
     (if 0 < n \<and> index < length iterable
      then take (min (index + n) (length iterable) - index) (drop index iterable)
             # batches_from iterable n (index + n)
      else [])"
  by pat_completeness auto
termination
  by (relation "measure (\<lambda>(iterable, n, index). length iterable - index)") auto

declare batches_from.simps [simp del]

definition batches :: "'a list \<Rightarrow> int \<Rightarrow> py_error + 'a list list" where
  "batches iterable n =
     (if n = 0 then Inl ValueError
      else if n < 0 then Inr []
      else Inr (batches_from iterable (nat n) 0))"

section \<open>Python strings\<close>

text \<open>
  A Python \<^verbatim>\<open>str\<close> is modelled as a HOL \<open>string\<close>, one \<open>char\<close> for one code
  point: the model covers the strings whose code points are below 256. \<open>str_strip\<close> is
  \<^verbatim>\<open>s.strip()\<close>: it removes the characters for which \<^verbatim>\<open>str.isspace\<close> holds
  (code points 9 to 13, 28 to 32, 133 and 160) from both ends. \<open>str_lower\<close> is
  \<^verbatim>\<open>s.lower()\<close>: the letters A to Z and the capital letters among the code points
  192 to 222 (all of them but the multiplication sign 215) are mapped to the letter 32
  code points further, every other character is kept. \<open>str_join\<close> is
  \<^verbatim>\<open>sep.join(parts)\<close>. The test \<^verbatim>\<open>a in b\<close> on two strings is
  \<open>sublist a b\<close>: \<open>a\<close> occurs in \<open>b\<close> as a contiguous run.
\<close>

definition isspace :: "char \<Rightarrow> bool" where
  "isspace c =
     (let k = (of_char c :: nat)
      in (9 \<le> k \<and> k \<le> 13) \<or> (28 \<le> k \<and> k \<le> 32) \<or> k = 133 \<or> k = 160)"

definition str_strip :: "string \<Rightarrow> string" where
  "str_strip s = rev (dropWhile isspace (rev (dropWhile isspace s)))"

definition lower_char :: "char \<Rightarrow> char" where
  "lower_char c =
     (let k = (of_char c :: nat)
      in if (65 \<le> k \<and> k \<le> 90) \<or> (192 \<le> k \<and> k \<le> 222 \<and> k \<noteq> 215) then char_of (k + 32) else c)"

definition str_lower :: "string \<Rightarrow> string" where
  "str_lower s = map lower_char s"

fun str_join :: "string \<Rightarrow> string list \<Rightarrow> string" where
  "str_join sep [] = []"
| "str_join sep [x] = x"
| "str_join sep (x # y # ys) = x @ sep @ str_join sep (y # ys)"

section \<open>xml.etree.ElementTree\<close>

text \<open>
  An element has a tag, a dictionary of attributes, an optional text (the character data
  before its first child), an optional tail (the character data after its end tag) and
  its child elements in document order. The attribute dictionary is an association list
  that is read with \<open>map_of\<close>. Comments and processing instructions, which the default
  parser drops, are not part of the model.
\<close>

datatype Element =
  Element (elem_tag: string) (elem_attrib: "(string \<times> string) list")
    (elem_text: "string option") (elem_tail: "string option") (elem_children: "Element list")

definition get_attr :: "Element \<Rightarrow> string \<Rightarrow> string option" where
  "get_attr e key = map_of (elem_attrib e) key"

text \<open>
  \<open>descendants e\<close> is \<^verbatim>\<open>e.iter()\<close> without \<open>e\<close> itself: every element below
  \<open>e\<close>, in document order.
\<close>

fun descendants :: "Element \<Rightarrow> Element list" where
  "descendants (Element tg attrs tx tail cs) = concat (map (\<lambda>c. c # descendants c) cs)"

text \<open>
  \<^verbatim>\<open>itertext\<close> yields the text of the element if it is not empty, then for every
  child the child's own fragments followed by the child's tail if that is not empty.
\<close>

definition fragment :: "string option \<Rightarrow> string list" where
  "fragment t = (case t of None \<Rightarrow> [] | Some s \<Rightarrow> if s = [] then [] else [s])"

fun itertext :: "Element \<Rightarrow> string list" where
  "itertext (Element tg attrs tx tail cs) =
     fragment tx @ concat (map (\<lambda>c. itertext c @ fragment (elem_tail c)) cs)"

text \<open>
  The paths of the source are written in the path language of ElementTree. A path is
  modelled by its steps: \<open>Child tg ps\<close> is \<^verbatim>\<open>tg[@k='v']...\<close> after \<^verbatim>\<open>/\<close>
  or at the start of the path (the children of the context element that have tag \<open>tg\<close>
  and all the attribute values \<open>ps\<close>); \<open>Descendant tg ps\<close> is the same after
  \<^verbatim>\<open>.//\<close> or \<^verbatim>\<open>//\<close> (the elements below the context element). So
  \<^verbatim>\<open>.//body/sec\<close> is \<open>[Descendant ''body'' [], Child ''sec'' []]\<close>.
\<close>

datatype step =
  Child string "(string \<times> string) list"
| Descendant string "(string \<times> string) list"

type_synonym path = "step list"

definition has_attrs :: "(string \<times> string) list \<Rightarrow> Element \<Rightarrow> bool" where
  "has_attrs ps e = list_all (\<lambda>(k, v). get_attr e k = Some v) ps"

definition matches :: "string \<Rightarrow> (string \<times> string) list \<Rightarrow> Element \<Rightarrow> bool" where
  "matches tg ps e = (elem_tag e = tg \<and> has_attrs ps e)"

fun select_step :: "step \<Rightarrow> Element list \<Rightarrow> Element list" where
  "select_step (Child tg ps) context =
     concat (map (\<lambda>e. filter (matches tg ps) (elem_children e)) context)"
| "select_step (Descendant tg ps) context =
     concat (map (\<lambda>e. filter (matches tg ps) (descendants e)) context)"

definition findall :: "Element \<Rightarrow> path \<Rightarrow> Element list" where
  "findall element path = foldl (\<lambda>context s. select_step s context) [element] path"

definition find_elem :: "Element \<Rightarrow> path \<Rightarrow> Element option" where
  "find_elem element path = (case findall element path of [] \<Rightarrow> None | e # _ \<Rightarrow> Some e)"

text \<open>
  \<^verbatim>\<open>findtext\<close> returns the text of the first match, the empty string if that
  element has no text, and \<^verbatim>\<open>None\<close> if nothing matches.
\<close>

definition findtext :: "Element \<Rightarrow> path \<Rightarrow> string option" where
  "findtext element path =
     (case find_elem element path of
        None \<Rightarrow> None
      | Some e \<Rightarrow> Some (case elem_text e of None \<Rightarrow> [] | Some t \<Rightarrow> t))"

section \<open>helpers.py: getContent\<close>

text \<open>
  \<^verbatim>\<open>result = element.findall(path)\<close>; the default if \<^verbatim>\<open>len(result) == 0\<close>; else
  \<^verbatim>\<open>separator.join([sub.text for sub in result if sub.text is not None])\<close>.
  Python's \<^verbatim>\<open>None\<close> as a string value is \<open>None :: string option\<close>.
\<close>

definition getContent :: "Element \<Rightarrow> path \<Rightarrow> string option \<Rightarrow> string \<Rightarrow> string option" where
  "getContent element path dflt separator =
     (let result = findall element path
      in if length result = 0 then dflt
         else Some (str_join separator (List.map_filter elem_text result)))"

section \<open>helpers.py: getAbstract, getBody, getSection, getBodySections\<close>

text \<open>
  The expression \<^verbatim>\<open>" ".join(subtext.strip() for subtext in node.itertext())\<close>, which
  the three functions apply to titles, paragraphs and other nodes.
\<close>

definition render_text :: "Element \<Rightarrow> string" where
  "render_text node = str_join '' '' (map str_strip (itertext node))"

text \<open>
  \<open>add_rendered\<close> is a loop \<^verbatim>\<open>for node in nodes: ret_str += render(node) + sep\<close>.
\<close>

fun add_rendered :: "string \<Rightarrow> string \<Rightarrow> Element list \<Rightarrow> string" where
  "add_rendered sep ret_str [] = ret_str"
| "add_rendered sep ret_str (node # nodes) =
     add_rendered sep (ret_str @ render_text node @ sep) nodes"

text \<open>
  \<open>add_sections\<close> is the loop over \<^verbatim>\<open>top_level.findall('.//sec')\<close> of getAbstract and
  getBody: the title of the section, if it has one, then its \<^verbatim>\<open>p\<close> children.
  \<open>add_top_levels\<close> is the outer loop over the matches of the path.
\<close>

fun add_sections :: "string \<Rightarrow> string \<Rightarrow> Element list \<Rightarrow> string" where
  "add_sections sep ret_str [] = ret_str"
| "add_sections sep ret_str (sec # secs) =
     (let ret_title =
            (case find_elem sec [Child ''title'' []] of
               None \<Rightarrow> ret_str
             | Some title \<Rightarrow> ret_str @ render_text title @ '': '');
          ret_paragraphs =
            (if find_elem sec [Child ''p'' []] \<noteq> None
             then add_rendered sep ret_title (findall sec [Child ''p'' []])
             else ret_title)
      in add_sections sep ret_paragraphs secs)"

fun add_top_levels :: "string \<Rightarrow> string \<Rightarrow> Element list \<Rightarrow> string" where
  "add_top_levels sep ret_str [] = ret_str"
| "add_top_levels sep ret_str (top_level # rest) =
     add_top_levels sep
       (if find_elem top_level [Child ''sec'' []] \<noteq> None
        then add_sections sep ret_str (findall top_level [Descendant ''sec'' []])
        else add_rendered sep ret_str (elem_children top_level))
       rest"

definition getAbstract :: "Element \<Rightarrow> path \<Rightarrow> string option \<Rightarrow> string option" where
  "getAbstract element path dflt =
     (let ret_str = add_top_levels ''\<newline>'' [] (findall element path)
      in if length ret_str = 0 then dflt else Some ret_str)"

definition getBody :: "Element \<Rightarrow> path \<Rightarrow> string option \<Rightarrow> string option" where
  "getBody element path dflt =
     (let ret_str = add_top_levels ''\<newline>\<newline>'' [] (findall element path)
      in if length ret_str = 0 then dflt else Some ret_str)"

text \<open>
  getSection: the condition
  \<^verbatim>\<open>sec.find("title") != None and section in sec.findtext('title').lower()\<close>
  reads \<^verbatim>\<open>find\<close> and \<^verbatim>\<open>findtext\<close> on the same path; \<^verbatim>\<open>findtext\<close> is only
  evaluated when \<^verbatim>\<open>find\<close> has found a title, and then it returns a string.
\<close>

fun section_loop :: "string \<Rightarrow> string \<Rightarrow> Element list \<Rightarrow> string" where
  "section_loop section ret_str [] = ret_str"
| "section_loop section ret_str (sec # secs) =
     section_loop section
       (case (find_elem sec [Child ''title'' []], findtext sec [Child ''title'' []]) of
          (Some title, Some title_text) \<Rightarrow>
            if sublist section (str_lower title_text)
            then (let ret_title = ret_str @ render_text title @ '': ''
                  in if find_elem sec [Descendant ''p'' []] \<noteq> None
                     then add_rendered ''\<newline>\<newline>'' ret_title (findall sec [Descendant ''p'' []])
                     else ret_title)
            else ret_str
        | _ \<Rightarrow> ret_str)
       secs"

definition getSection :: "Element \<Rightarrow> path \<Rightarrow> string \<Rightarrow> string option \<Rightarrow> string option" where
  "getSection element path section dflt =
     (let ret_str = section_loop section [] (findall element path)
      in if length ret_str = 0 then dflt else Some ret_str)"

definition getBodySections ::
  "Element \<Rightarrow> path \<Rightarrow> string option
     \<Rightarrow> string option \<times> string option \<times> string option \<times> string option \<times> string option" where
  "getBodySections element path dflt =
     (let introductionStr = getSection element path ''introduction'' dflt;
          methodsStr = getSection element path ''methods'' dflt;
          resultsStr = getSection element path ''results'' dflt;
          discussionStr = getSection element path ''discussion'' dflt;
          conclusionStr = getSection element path ''conclusion'' dflt
      in (introductionStr, methodsStr, resultsStr, discussionStr, conclusionStr))"

section \<open>Python built-ins used by article.py: int and datetime.date\<close>

text \<open>
  \<open>py_int\<close> is \<^verbatim>\<open>int(x)\<close> for \<open>x\<close> a string or \<^verbatim>\<open>None\<close>. \<^verbatim>\<open>int(None)\<close>
  raises \<^verbatim>\<open>TypeError\<close>. A string is accepted when, after removing the white space
  that \<^verbatim>\<open>int\<close> allows at both ends (code points 9 to 13 and 32, and the two
  spaces 133 and 160 beyond ASCII; the separators 28 to 31 are not allowed), it is an
  optional sign followed by decimal digits, where single underscores may stand between
  two digits; anything else raises the \<^verbatim>\<open>ValueError\<close> \<open>InvalidLiteral\<close> of the
  whole string. Below code point 256 the only decimal digits are 0 to 9. The limit on
  the number of digits that recent interpreters add (a \<^verbatim>\<open>ValueError\<close> too) is not
  modelled.
\<close>

definition c_isspace :: "char \<Rightarrow> bool" where
  "c_isspace c =
     (let k = (of_char c :: nat) in (9 \<le> k \<and> k \<le> 13) \<or> k = 32 \<or> k = 133 \<or> k = 160)"

definition is_digit :: "char \<Rightarrow> bool" where
  "is_digit c = (let k = (of_char c :: nat) in 48 \<le> k \<and> k \<le> 57)"

definition digit_val :: "char \<Rightarrow> int" where
  "digit_val c = int (of_char c) - 48"

fun parse_digits :: "int \<Rightarrow> string \<Rightarrow> int option" where
  "parse_digits acc [] = Some acc"
| "parse_digits acc (c # cs) =
     (if is_digit c then parse_digits (acc * 10 + digit_val c) cs
      else if c = CHR ''_'' then
        (case cs of
           [] \<Rightarrow> None
         | d # ds \<Rightarrow> if is_digit d then parse_digits (acc * 10 + digit_val d) ds else None)
      else None)"

definition parse_unsigned :: "string \<Rightarrow> int option" where
  "parse_unsigned s =
     (case s of
        [] \<Rightarrow> None
      | c # cs \<Rightarrow> if is_digit c then parse_digits (digit_val c) cs else None)"

definition py_int :: "string option \<Rightarrow> py_error + int" where
  "py_int x =
     (case x of
        None \<Rightarrow> Inl TypeError
      | Some s \<Rightarrow>
          (let t = rev (dropWhile c_isspace (rev (dropWhile c_isspace s)));
               negative = (case t of c # _ \<Rightarrow> c = CHR ''-'' | [] \<Rightarrow> False);
               body = (case t of c # cs \<Rightarrow> if c = CHR ''-'' \<or> c = CHR ''+'' then cs else t | [] \<Rightarrow> t)
           in case parse_unsigned body of
                None \<Rightarrow> Inl (InvalidLiteral s)
              | Some v \<Rightarrow> Inr (if negative then - v else v)))"

text \<open>
  \<open>date_new\<close> is the constructor \<^verbatim>\<open>datetime.date(year, month, day)\<close>: an argument
  that does not fit a C \<^verbatim>\<open>int\<close> raises \<^verbatim>\<open>OverflowError\<close>; a year outside 1 to
  9999, a month outside 1 to 12 or a day outside the month raises \<^verbatim>\<open>ValueError\<close>.
\<close>

datatype date = Date (date_year: int) (date_month: int) (date_day: int)

definition is_leap :: "int \<Rightarrow> bool" where
  "is_leap y = (y mod 4 = 0 \<and> (y mod 100 \<noteq> 0 \<or> y mod 400 = 0))"

definition days_in_month :: "int \<Rightarrow> int \<Rightarrow> int" where
  "days_in_month y m =
     (if m = 2 then (if is_leap y then 29 else 28)
      else if m = 4 \<or> m = 6 \<or> m = 9 \<or> m = 11 then 30
      else 31)"

definition fits_c_int :: "int \<Rightarrow> bool" where
  "fits_c_int v = (- 2147483648 \<le> v \<and> v \<le> 2147483647)"

definition date_new :: "int \<Rightarrow> int \<Rightarrow> int \<Rightarrow> py_error + date" where
  "date_new y m d =
     (if \<not> (fits_c_int y \<and> fits_c_int m \<and> fits_c_int d) then Inl OverflowError
      else if 1 \<le> y \<and> y \<le> 9999 \<and> 1 \<le> m \<and> m \<le> 12 \<and> 1 \<le> d \<and> d \<le> days_in_month y m
      then Inr (Date y m d)
      else Inl ValueError)"

section \<open>The standard output\<close>

text \<open>
  The handlers of \<^verbatim>\<open>article.py\<close> call \<^verbatim>\<open>print(e)\<close>, which writes the message
  of the exception to the standard output of the process and raises when that fails. The
  standard output is a parameter of the model: \<open>stdout e\<close> is \<open>None\<close> when the message
  of \<open>e\<close> is printed and \<open>Some e'\<close> when \<^verbatim>\<open>print\<close> raises \<open>e'\<close>.
\<close>

type_synonym stdout = "py_error \<Rightarrow> py_error option"

text \<open>A standard output in UTF-8 encodes every message.\<close>

definition utf8_stdout :: stdout where
  "utf8_stdout e = None"

text \<open>
  A standard output in ASCII raises \<^verbatim>\<open>UnicodeEncodeError\<close> on a message with a
  code point above 127. Only the message of \<open>InvalidLiteral s\<close> can have one: it shows
  the first 200 characters of \<^verbatim>\<open>repr(s)\<close>, which is \<open>s\<close> between quotes (double
  quotes when \<open>s\<close> has a single quote and no double quote) with the quote and the
  backslash escaped by a backslash, tab, newline and carriage return written as two
  characters, every other character that is not printable (code points below 32, 127 to
  160 and 173) written as four characters, and every printable character as itself.
  \<open>shows_non_ascii room q s\<close> tells whether a printable character above 127 of \<open>s\<close> is
  among the next \<open>room\<close> characters of that text.
\<close>

definition isprintable :: "char \<Rightarrow> bool" where
  "isprintable c =
     (let k = (of_char c :: nat) in (32 \<le> k \<and> k \<le> 126) \<or> (161 \<le> k \<and> k \<noteq> 173))"

definition repr_quote :: "string \<Rightarrow> char" where
  "repr_quote s = (if CHR 0x27 \<in> set s \<and> CHR 0x22 \<notin> set s then CHR 0x22 else CHR 0x27)"

definition repr_width :: "char \<Rightarrow> char \<Rightarrow> nat" where
  "repr_width q c =
     (let k = (of_char c :: nat)
      in if c = q \<or> k = 92 then 2
         else if k = 9 \<or> k = 10 \<or> k = 13 then 2
         else if isprintable c then 1
         else 4)"

fun shows_non_ascii :: "nat \<Rightarrow> char \<Rightarrow> string \<Rightarrow> bool" where
  "shows_non_ascii room q [] = False"
| "shows_non_ascii room q (c # cs) =
     (if room = 0 then False
      else if 128 \<le> (of_char c :: nat) \<and> isprintable c then True
      else shows_non_ascii (room - repr_width q c) q cs)"

definition ascii_stdout :: stdout where
  "ascii_stdout e =
     (case e of
        InvalidLiteral s \<Rightarrow>
          if shows_non_ascii 199 (repr_quote s) s then Some UnicodeEncodeError else None
      | _ \<Rightarrow> None)"

section \<open>article.py: PubMedArticle\<close>

text \<open>
  The article classes are records of their slots; the fields of the two classes carry
  the prefixes \<open>pm_\<close> and \<open>pmc_\<close>. Calls of \<^verbatim>\<open>getContent\<close> that
  leave out \<^verbatim>\<open>default\<close> and \<^verbatim>\<open>separator\<close> get \<open>None\<close> and a newline. The
  serialisers \<^verbatim>\<open>toDict\<close> and \<^verbatim>\<open>toJSON\<close> and the construction from keyword
  arguments are not modelled.
\<close>

record PubMedAuthor =
  lastname :: "string option"
  firstname :: "string option"
  initials :: "string option"
  affiliation :: "string option"

record PubMedArticle =
  pm_pubmed_id :: "string option"
  pm_title :: "string option"
  pm_abstract :: "string option"
  pm_keywords :: "string option list"
  pm_journal :: "string option"
  pm_publication_date :: "date option"
  pm_authors :: "PubMedAuthor list"
  pm_copyrights :: "string option"
  pm_doi :: "string option"
  pm_xml :: Element

definition PubMed_extractPubMedId :: "Element \<Rightarrow> string option" where
  "PubMed_extractPubMedId xml_element =
     getContent xml_element [Descendant ''ArticleId'' [(''IdType'', ''pubmed'')]] None ''\<newline>''"

definition PubMed_extractTitle :: "Element \<Rightarrow> string option" where
  "PubMed_extractTitle xml_element =
     getContent xml_element [Descendant ''ArticleTitle'' []] None ''\<newline>''"

text \<open>
  \<^verbatim>\<open>[keyword.text for keyword in xml_element.findall(path) if keyword is not None]\<close>:
  the condition is on the element, which \<^verbatim>\<open>findall\<close> never returns as
  \<^verbatim>\<open>None\<close>, so the filter keeps every match; the list holds the \<^verbatim>\<open>text\<close> of
  each match, \<^verbatim>\<open>None\<close> included.
\<close>

definition PubMed_extractKeywords :: "Element \<Rightarrow> string option list" where
  "PubMed_extractKeywords xml_element =
     map elem_text (filter (\<lambda>keyword. True) (findall xml_element [Descendant ''Keyword'' []]))"

definition PubMed_extractJournal :: "Element \<Rightarrow> string option" where
  "PubMed_extractJournal xml_element =
     getContent xml_element [Descendant ''Journal'' [], Child ''Title'' []] None ''\<newline>''"

definition PubMed_extractAbstract :: "Element \<Rightarrow> string option" where
  "PubMed_extractAbstract xml_element =
     getContent xml_element [Descendant ''AbstractText'' []] None ''\<newline>''"

definition PubMed_extractCopyrights :: "Element \<Rightarrow> string option" where
  "PubMed_extractCopyrights xml_element =
     getContent xml_element [Descendant ''CopyrightInformation'' []] None ''\<newline>''"

definition PubMed_extractDoi :: "Element \<Rightarrow> string option" where
  "PubMed_extractDoi xml_element =
     getContent xml_element [Descendant ''ArticleId'' [(''IdType'', ''doi'')]] None ''\<newline>''"

text \<open>
  The body of the \<^verbatim>\<open>try\<close> block of \<^verbatim>\<open>_extractPublicationDate\<close>. When
  \<^verbatim>\<open>find\<close> returns \<^verbatim>\<open>None\<close>, the first \<^verbatim>\<open>getContent\<close> calls
  \<^verbatim>\<open>None.findall\<close>, an \<^verbatim>\<open>AttributeError\<close>. The three conversions run in the
  order year, month, day and the first exception leaves the block.
\<close>

definition PubMed_publicationDate_try :: "Element \<Rightarrow> py_error + date" where
  "PubMed_publicationDate_try xml_element =
     (case find_elem xml_element [Descendant ''PubMedPubDate'' [(''PubStatus'', ''pubmed'')]] of
        None \<Rightarrow> Inl AttributeError
      | Some publication_date \<Rightarrow>
          (case py_int (getContent publication_date [Descendant ''Year'' []] None ''\<newline>'') of
             Inl e \<Rightarrow> Inl e
           | Inr publication_year \<Rightarrow>
          (case py_int (getContent publication_date [Descendant ''Month'' []] (Some ''1'') ''\<newline>'') of
             Inl e \<Rightarrow> Inl e
           | Inr publication_month \<Rightarrow>
          (case py_int (getContent publication_date [Descendant ''Day'' []] (Some ''1'') ''\<newline>'') of
             Inl e \<Rightarrow> Inl e
           | Inr publication_day \<Rightarrow>
               date_new publication_year publication_month publication_day))))"

text \<open>
  \<^verbatim>\<open>except Exception as e: print(e); return None\<close>: every exception of the block is
  an \<^verbatim>\<open>Exception\<close>, so the handler is entered for each of them. It prints the
  exception outside of any \<^verbatim>\<open>try\<close>: when \<^verbatim>\<open>print\<close> raises, that exception
  leaves the function; otherwise the function returns \<^verbatim>\<open>None\<close>.
\<close>

definition PubMed_extractPublicationDate :: "stdout \<Rightarrow> Element \<Rightarrow> py_error + date option" where
  "PubMed_extractPublicationDate stdout xml_element =
     (case PubMed_publicationDate_try xml_element of
        Inr d \<Rightarrow> Inr (Some d)
      | Inl e \<Rightarrow> (case stdout e of None \<Rightarrow> Inr None | Some raised \<Rightarrow> Inl raised))"

definition PubMed_extractAuthors :: "Element \<Rightarrow> PubMedAuthor list" where
  "PubMed_extractAuthors xml_element =
     map (\<lambda>author.
           \<lparr> lastname = getContent author [Descendant ''LastName'' []] None ''\<newline>'',
             firstname = getContent author [Descendant ''ForeName'' []] None ''\<newline>'',
             initials = getContent author [Descendant ''Initials'' []] None ''\<newline>'',
             affiliation =
               getContent author [Descendant ''AffiliationInfo'' [], Child ''Affiliation'' []]
                 None ''\<newline>'' \<rparr>)
       (findall xml_element [Descendant ''Author'' []])"

text \<open>
  \<^verbatim>\<open>_initializeFromXML\<close> assigns the fields one after the other. Only the
  extraction of the date can raise; its exception leaves the method, and no article
  object is built.
\<close>

definition PubMed_initializeFromXML :: "stdout \<Rightarrow> Element \<Rightarrow> py_error + PubMedArticle" where
  "PubMed_initializeFromXML stdout xml_element =
     (case PubMed_extractPublicationDate stdout xml_element of
        Inl raised \<Rightarrow> Inl raised
      | Inr date \<Rightarrow>
          Inr \<lparr> pm_pubmed_id = PubMed_extractPubMedId xml_element,
                pm_title = PubMed_extractTitle xml_element,
                pm_abstract = PubMed_extractAbstract xml_element,
                pm_keywords = PubMed_extractKeywords xml_element,
                pm_journal = PubMed_extractJournal xml_element,
                pm_publication_date = date,
                pm_authors = PubMed_extractAuthors xml_element,
                pm_copyrights = PubMed_extractCopyrights xml_element,
                pm_doi = PubMed_extractDoi xml_element,
                pm_xml = xml_element \<rparr>)"

section \<open>article.py: PMCArticle\<close>

record PMCAuthor =
  surname :: "string option"
  given_names :: "string option"

record PMCArticle =
  pmc_pubmed_id :: "string option"
  pmc_title :: "string option"
  pmc_abstract :: "string option"
  pmc_keywords :: "string option list"
  pmc_journal :: "string option"
  pmc_publication_date :: "date option"
  pmc_authors :: "PMCAuthor list"
  pmc_body :: "string option"
  pmc_introduction :: "string option"
  pmc_methods :: "string option"
  pmc_results :: "string option"
  pmc_discussion :: "string option"
  pmc_conclusion :: "string option"
  pmc_copyrights :: "string option"
  pmc_doi :: "string option"
  pmc_xml :: Element

definition PMC_extractPubMedId :: "Element \<Rightarrow> string option" where
  "PMC_extractPubMedId xml_element =
     getContent xml_element [Descendant ''article-id'' [(''pub-id-type'', ''pmc'')]] None ''\<newline>''"

definition PMC_extractTitle :: "Element \<Rightarrow> string option" where
  "PMC_extractTitle xml_element =
     getContent xml_element [Descendant ''title-group'' [], Child ''article-title'' []]
       None ''\<newline>''"

definition PMC_extractKeywords :: "Element \<Rightarrow> string option list" where
  "PMC_extractKeywords xml_element =
     map elem_text
       (filter (\<lambda>keyword. True) (findall xml_element [Descendant ''kwd-group'' [], Child ''kwd'' []]))"

definition PMC_extractJournal :: "Element \<Rightarrow> string option" where
  "PMC_extractJournal xml_element =
     getContent xml_element [Descendant ''journal-title'' []] None ''\<newline>''"

definition PMC_extractAbstract :: "Element \<Rightarrow> string option" where
  "PMC_extractAbstract xml_element = getAbstract xml_element [Descendant ''abstract'' []] None"

definition PMC_extractBody :: "Element \<Rightarrow> string option" where
  "PMC_extractBody xml_element = getBody xml_element [Descendant ''body'' []] None"

definition PMC_extractBodySections ::
  "Element \<Rightarrow> string option \<times> string option \<times> string option \<times> string option \<times> string option" where
  "PMC_extractBodySections xml_element =
     getBodySections xml_element [Descendant ''body'' [], Child ''sec'' []] None"

definition PMC_extractCopyrights :: "Element \<Rightarrow> string option" where
  "PMC_extractCopyrights xml_element =
     getContent xml_element [Descendant ''permissions'' [], Child ''copyright-statement'' []]
       None ''\<newline>''"

definition PMC_extractDoi :: "Element \<Rightarrow> string option" where
  "PMC_extractDoi xml_element =
     getContent xml_element [Descendant ''article-id'' [(''pub-id-type'', ''doi'')]] None ''\<newline>''"

text \<open>
  The selection of the date node, lines 231 to 239 of \<^verbatim>\<open>article.py\<close>.
  \<open>epub_loop\<close> is the loop over all \<^verbatim>\<open>pub-date\<close> nodes, which assigns at every
  node whose \<^verbatim>\<open>pub-type\<close> is \<^verbatim>\<open>epub\<close> and has no \<^verbatim>\<open>break\<close>; the two
  \<^verbatim>\<open>if publication_date == None\<close> fall back to \<^verbatim>\<open>find\<close>.
\<close>

fun epub_loop :: "Element option \<Rightarrow> Element list \<Rightarrow> Element option" where
  "epub_loop publication_date [] = publication_date"
| "epub_loop publication_date (date # dates) =
     epub_loop
       (if get_attr date ''pub-type'' = Some ''epub'' then Some date else publication_date)
       dates"

definition PMC_publicationDate_node :: "Element \<Rightarrow> Element option" where
  "PMC_publicationDate_node xml_element =
     (let publication_dates = findall xml_element [Descendant ''pub-date'' []];
          publication_date = epub_loop None publication_dates;
          publication_date =
            (if publication_date = None
             then find_elem xml_element
                    [Descendant ''pub-date''
                       [(''date-type'', ''pub''), (''publication-format'', ''electronic'')]]
             else publication_date);
          publication_date =
            (if publication_date = None
             then find_elem xml_element [Descendant ''pub-date'' []]
             else publication_date)
      in publication_date)"

definition PMC_publicationDate_try :: "Element \<Rightarrow> py_error + date" where
  "PMC_publicationDate_try xml_element =
     (case PMC_publicationDate_node xml_element of
        None \<Rightarrow> Inl AttributeError
      | Some publication_date \<Rightarrow>
          (case py_int (getContent publication_date [Descendant ''year'' []] None ''\<newline>'') of
             Inl e \<Rightarrow> Inl e
           | Inr publication_year \<Rightarrow>
          (case py_int (getContent publication_date [Descendant ''month'' []] (Some ''1'') ''\<newline>'') of
             Inl e \<Rightarrow> Inl e
           | Inr publication_month \<Rightarrow>
          (case py_int (getContent publication_date [Descendant ''day'' []] (Some ''1'') ''\<newline>'') of
             Inl e \<Rightarrow> Inl e
           | Inr publication_day \<Rightarrow>
               date_new publication_year publication_month publication_day))))"

definition PMC_extractPublicationDate :: "stdout \<Rightarrow> Element \<Rightarrow> py_error + date option" where
  "PMC_extractPublicationDate stdout xml_element =
     (case PMC_publicationDate_try xml_element of
        Inr d \<Rightarrow> Inr (Some d)
      | Inl e \<Rightarrow> (case stdout e of None \<Rightarrow> Inr None | Some raised \<Rightarrow> Inl raised))"

definition PMC_extractAuthors :: "Element \<Rightarrow> PMCAuthor list" where
  "PMC_extractAuthors xml_element =
     map (\<lambda>author.
           \<lparr> surname = getContent author [Descendant ''surname'' []] None ''\<newline>'',
             given_names = getContent author [Descendant ''given-names'' []] None ''\<newline>'' \<rparr>)
       (findall xml_element
          [Descendant ''contrib-group'' [], Child ''contrib'' [(''contrib-type'', ''author'')],
           Child ''name'' []])"

definition PMC_initializeFromXML :: "stdout \<Rightarrow> Element \<Rightarrow> py_error + PMCArticle" where
  "PMC_initializeFromXML stdout xml_element =
     (let (introduction, methods, results, discussion, conclusion) =
            PMC_extractBodySections xml_element
      in case PMC_extractPublicationDate stdout xml_element of
           Inl raised \<Rightarrow> Inl raised
         | Inr date \<Rightarrow>
             Inr \<lparr> pmc_pubmed_id = PMC_extractPubMedId xml_element,
                   pmc_title = PMC_extractTitle xml_element,
                   pmc_abstract = PMC_extractAbstract xml_element,
                   pmc_keywords = PMC_extractKeywords xml_element,
                   pmc_journal = PMC_extractJournal xml_element,
                   pmc_publication_date = date,
                   pmc_authors = PMC_extractAuthors xml_element,
                   pmc_body = PMC_extractBody xml_element,
                   pmc_introduction = introduction,
                   pmc_methods = methods,
                   pmc_results = results,
                   pmc_discussion = discussion,
                   pmc_conclusion = conclusion,
                   pmc_copyrights = PMC_extractCopyrights xml_element,
                   pmc_doi = PMC_extractDoi xml_element,
                   pmc_xml = xml_element \<rparr>)"

section \<open>Notions used in the statements\<close>

text \<open>
  \<open>title_matches\<close> is the test that \<open>section_loop\<close> makes on a section: the section has
  a \<^verbatim>\<open>title\<close> child, and the name occurs in the lower-cased direct text of the
  first such child, which is the text before its first child element (the empty string
  when there is none). It is not a test on the whole text of the title.
  \<open>section_contribution\<close> is what \<open>section_loop\<close> appends for a section that passes the
  test: the rendered title, a colon and a space, and then every paragraph below the
  section, rendered and followed by a blank line.
\<close>

definition title_matches :: "string \<Rightarrow> Element \<Rightarrow> bool" where
  "title_matches section sec =
     (case find_elem sec [Child ''title'' []] of
        None \<Rightarrow> False
      | Some title \<Rightarrow>
          sublist section (str_lower (case elem_text title of None \<Rightarrow> [] | Some t \<Rightarrow> t)))"

definition section_contribution :: "Element \<Rightarrow> string" where
  "section_contribution sec =
     (case find_elem sec [Child ''title'' []] of
        None \<Rightarrow> []
      | Some title \<Rightarrow>
          render_text title @ '': ''
            @ concat (map (\<lambda>p. render_text p @ ''\<newline>\<newline>'') (findall sec [Descendant ''p'' []])))"



section \<open>Example documents\<close>

text \<open>A title whose text is split by an empty inline element: \<^verbatim>\<open><title>Intro<ref/>duction</title>\<close>.\<close>

definition intro_title :: Element where
  "intro_title =
     Element ''title'' [] (Some ''Intro'') None [Element ''ref'' [] None (Some ''duction'') []]"

definition intro_doc :: Element where
  "intro_doc =
     Element ''article'' [] None None
       [Element ''body'' [] None None [Element ''sec'' [] None None [intro_title]]]"

text \<open>
  A body with the two sections \<^verbatim>\<open>Methods and Materials\<close> and
  \<^verbatim>\<open>Results and Discussion\<close>, one paragraph each.
\<close>

definition methods_sec :: Element where
  "methods_sec =
     Element ''sec'' [] None None
       [Element ''title'' [] (Some ''Methods and Materials'') None [],
        Element ''p'' [] (Some ''We measured.'') None []]"

definition results_sec :: Element where
  "results_sec =
     Element ''sec'' [] None None
       [Element ''title'' [] (Some ''Results and Discussion'') None [],
        Element ''p'' [] (Some ''It '') None [Element ''i'' [] (Some ''worked'') (Some ''.'') []]]"

definition two_sections_doc :: Element where
  "two_sections_doc =
     Element ''article'' [] None None [Element ''body'' [] None None [methods_sec, results_sec]]"

text \<open>
  A section whose whole title is inside markup:
  \<^verbatim>\<open><sec><title><bold>Methods and Materials</bold></title><p>We measured.</p></sec>\<close>.
\<close>

definition bold_methods_sec :: Element where
  "bold_methods_sec =
     Element ''sec'' [] None None
       [Element ''title'' [] None None [Element ''bold'' [] (Some ''Methods and Materials'') None []],
        Element ''p'' [] (Some ''We measured.'') None []]"

definition bold_methods_doc :: Element where
  "bold_methods_doc =
     Element ''article'' [] None None [Element ''body'' [] None None [bold_methods_sec]]"

text \<open>
  A title with white space around its fragments and markup inside markup, as a
  pretty-printed file has it: the text \<^verbatim>\<open>Results\<close> after a line break and two
  spaces, a reference \<^verbatim>\<open>1\<close> between spaces, \<^verbatim>\<open>and\<close> after a tab, the word
  \<^verbatim>\<open>Discussion\<close> in bold inside italics, and a line break before the end tag. The
  paragraph of the section has a fragment between the spaces 160 and 133.
\<close>

definition spaced_title :: Element where
  "spaced_title =
     Element ''title'' [] (Some [CHR 0x0A, CHR '' '', CHR '' '', CHR ''R'', CHR ''e'', CHR ''s'',
                                 CHR ''u'', CHR ''l'', CHR ''t'', CHR ''s'', CHR '' '']) None
       [Element ''xref'' [] (Some '' 1 '') (Some [CHR 0x09, CHR ''a'', CHR ''n'', CHR ''d'', CHR '' '']) [],
        Element ''italic'' [] None (Some [CHR 0x0A])
          [Element ''bold'' [] (Some '' Discussion'') (Some '' '') []]]"

definition spaced_paragraph :: Element where
  "spaced_paragraph =
     Element ''p'' [] (Some ''  It '') None
       [Element ''i'' [] (Some ([CHR 0xA0] @ ''worked'' @ [CHR 0x85])) (Some [CHR '' '', CHR ''.'', CHR 0x0A]) []]"

definition spaced_doc :: Element where
  "spaced_doc =
     Element ''article'' [] None None
       [Element ''body'' [] None None
          [Element ''sec'' [] None None [spaced_title, spaced_paragraph]]]"

text \<open>
  Titles with inline markup: \<^verbatim>\<open><title>Metho<i/>ds</title>\<close>, where the name is split,
  and \<^verbatim>\<open><title><i>Methods</i></title>\<close>, where the name is inside the markup.
\<close>

definition split_title :: Element where
  "split_title =
     Element ''title'' [] (Some ''Metho'') None [Element ''i'' [] None (Some ''ds'') []]"

definition split_doc :: Element where
  "split_doc =
     Element ''article'' [] None None
       [Element ''body'' [] None None
          [Element ''sec'' [] None None [split_title, Element ''p'' [] (Some ''Text.'') None []]]]"

definition italic_title :: Element where
  "italic_title = Element ''title'' [] None None [Element ''i'' [] (Some ''Methods'') None []]"

definition italic_doc :: Element where
  "italic_doc =
     Element ''article'' [] None None
       [Element ''body'' [] None None
          [Element ''sec'' [] None None [italic_title, Element ''p'' [] (Some ''Text.'') None []]]]"

text \<open>
  Two sections that both match \<^verbatim>\<open>methods\<close>; the first one has a title only, the
  second one has a paragraph.
\<close>

definition bare_methods_sec :: Element where
  "bare_methods_sec =
     Element ''sec'' [] None None [Element ''title'' [] (Some ''Methods'') None []]"

definition more_methods_sec :: Element where
  "more_methods_sec =
     Element ''sec'' [] None None
       [Element ''title'' [] (Some ''Methods used'') None [],
        Element ''p'' [] (Some ''Assays.'') None []]"

definition two_methods_doc :: Element where
  "two_methods_doc =
     Element ''article'' [] None None
       [Element ''body'' [] None None [bare_methods_sec, more_methods_sec]]"

text \<open>A body without sections, holding one paragraph: \<^verbatim>\<open><body><p>Hello</p></body>\<close>.\<close>

definition paragraph_doc :: Element where
  "paragraph_doc =
     Element ''article'' [] None None
       [Element ''body'' [] None None [Element ''p'' [] (Some ''Hello'') None []]]"

text \<open>
  An article title that starts with markup,
  \<^verbatim>\<open><ArticleTitle><i>Cells</i> in vivo</ArticleTitle>\<close>: the element has no direct text.
\<close>

definition markup_title_doc :: Element where
  "markup_title_doc =
     Element ''PubmedArticle'' [] None None
       [Element ''ArticleTitle'' [] None None [Element ''i'' [] (Some ''Cells'') (Some '' in vivo'') []]]"

text \<open>Three keywords, the second one an empty element, in each of the two schemas.\<close>

definition keywords_doc :: Element where
  "keywords_doc =
     Element ''PubmedArticle'' [] None None
       [Element ''KeywordList'' [] None None
          [Element ''Keyword'' [] (Some ''yeast'') None [],
           Element ''Keyword'' [] None None [],
           Element ''Keyword'' [] (Some ''ageing'') None []]]"

definition kwd_doc :: Element where
  "kwd_doc =
     Element ''article'' [] None None
       [Element ''kwd-group'' [] None None
          [Element ''kwd'' [] (Some ''yeast'') None [],
           Element ''kwd'' [] None None [],
           Element ''kwd'' [] (Some ''ageing'') None []]]"








text \<open>
  A document of each schema with a title and a date node whose year is the text
  \<open>year_text\<close>; \<open>e_acute\<close> is a year text of one character, the letter e with an acute
  accent (code point 233).
\<close>

definition e_acute :: string where
  "e_acute = [CHR 0xE9]"

definition pubmed_doc :: "string \<Rightarrow> Element" where
  "pubmed_doc year_text =
     Element ''PubmedArticle'' [] None None
       [Element ''ArticleTitle'' [] (Some ''A study'') None [],
        Element ''ArticleId'' [(''IdType'', ''pubmed'')] (Some ''12345'') None [],
        Element ''PubMedPubDate'' [(''PubStatus'', ''pubmed'')] None None
          [Element ''Year'' [] (Some year_text) None [],
           Element ''Month'' [] (Some ''5'') None []]]"

definition pmc_doc :: "string \<Rightarrow> Element" where
  "pmc_doc year_text =
     Element ''article'' [] None None
       [Element ''journal-title'' [] (Some ''A journal'') None [],
        Element ''pub-date'' [(''pub-type'', ''epub'')] None None
          [Element ''year'' [] (Some year_text) None []],
        Element ''body'' [] None None [methods_sec]]"

section \<open>Properties of batches\<close>



lemma batches_from_concat: "0 < n \<Longrightarrow> concat (batches_from xs n i) = drop i xs"
proof (induction xs n i rule: batches_from.induct)
  case (1 xs n i)
  show ?case
  proof (cases "i < length xs")
    case True
    have a: "take (min (i + n) (length xs) - i) (drop i xs) = take n (drop i xs)"
      by (simp add: min_def)
    have b: "concat (batches_from xs n (i + n)) = drop n (drop i xs)"
      using True 1 by (simp add: add.commute)
    have "concat (batches_from xs n i) = take n (drop i xs) @ drop n (drop i xs)"
      using True 1(2) a b by (subst batches_from.simps) simp
    then show ?thesis
      by (simp only: append_take_drop_id)
  next
    case False
    then show ?thesis by (subst batches_from.simps) simp
  qed
qed

lemma batches_from_length:
  "0 < n \<Longrightarrow> length (batches_from xs n i) = (length xs - i + n - 1) div n"
proof (induction xs n i rule: batches_from.induct)
  case (1 xs n i)
  show ?case
  proof (cases "i < length xs")
    case True
    then obtain k where k: "length xs - i = Suc k" by (metis Suc_diff_Suc)
    have "(length xs - i + n - 1) div n = (k + n) div n" using k by simp
    also have "\<dots> = Suc (k div n)" using 1(2) by simp
    finally have a: "(length xs - i + n - 1) div n = Suc (k div n)" .
    have b: "(length xs - (i + n) + n - 1) div n = k div n"
    proof (cases "n \<le> Suc k")
      case True
      then have "length xs - (i + n) + n - 1 = k" using k by simp
      then show ?thesis by simp
    next
      case False
      then have "k < n" by simp
      moreover have "length xs - (i + n) + n - 1 = n - 1" using k False by simp
      ultimately show ?thesis using 1(2) by simp
    qed
    show ?thesis
      using True 1 a b by (subst batches_from.simps) simp
  next
    case False
    then show ?thesis using 1(2) by (subst batches_from.simps) simp
  qed
qed

lemma ceil_div_upper: "0 < n \<Longrightarrow> (L::nat) \<le> ((L + n - 1) div n) * n"
proof -
  assume n: "0 < n"
  have "L + n - 1 = (L + n - 1) div n * n + (L + n - 1) mod n"
    by simp
  moreover have "(L + n - 1) mod n < n"
    using n by simp
  ultimately show ?thesis
    using n by linarith
qed

lemma ceil_div_lower: "0 < n \<Longrightarrow> 0 < L \<Longrightarrow> ((L + n - 1) div n - 1) * n < (L::nat)"
proof -
  assume n: "0 < n" and L: "0 < L"
  have "(L + n - 1) div n * n \<le> L + n - 1"
    by (rule div_times_less_eq_dividend)
  then have "(L + n - 1) div n * n - n < L"
    using n L by linarith
  then show ?thesis
    by (simp add: diff_mult_distrib)
qed

lemma ceil_div_ceiling: "0 < n \<Longrightarrow> int ((L + n - 1) div n) = \<lceil>real L / real n\<rceil>"
proof -
  assume n: "0 < n"
  let ?q = "(L + n - 1) div n"
  have up: "real L / real n \<le> real ?q"
  proof -
    have "real L \<le> real (?q * n)"
      using ceil_div_upper [OF n, of L] by (simp only: of_nat_le_iff)
    then show ?thesis
      using n by (simp add: pos_divide_le_eq)
  qed
  have lo: "real ?q - 1 < real L / real n"
  proof (cases "0 < L")
    case True
    have "n \<le> L + n - 1" using True by simp
    then have q: "1 \<le> ?q" using n by (simp add: Suc_le_eq div_greater_zero_iff)
    have "real ((?q - 1) * n) < real L"
      using ceil_div_lower [OF n True] by (simp only: of_nat_less_iff)
    then have "(real ?q - 1) * real n < real L"
      using q by (simp add: of_nat_diff)
    then show ?thesis
      using n by (simp add: pos_less_divide_eq)
  next
    case False
    then show ?thesis using n by simp
  qed
  have "\<lceil>real L / real n\<rceil> = int ?q"
    by (rule ceiling_unique) (use up lo in simp_all)
  then show ?thesis by simp
qed

lemma batches_from_nth:
  "0 < n \<Longrightarrow> j < length (batches_from xs n i) \<Longrightarrow>
   batches_from xs n i ! j = take n (drop (i + j * n) xs)"
proof (induction xs n i arbitrary: j rule: batches_from.induct)
  case (1 xs n i)
  show ?case
  proof (cases "i < length xs")
    case True
    have a: "take (min (i + n) (length xs) - i) (drop i xs) = take n (drop i xs)"
      by (simp add: min_def)
    have unf: "batches_from xs n i = take n (drop i xs) # batches_from xs n (i + n)"
      using True 1(2) a by (subst batches_from.simps) simp
    show ?thesis
    proof (cases j)
      case 0
      then show ?thesis using unf by simp
    next
      case (Suc k)
      then have "k < length (batches_from xs n (i + n))" using 1(3) unf by simp
      then have "batches_from xs n (i + n) ! k = take n (drop (i + n + k * n) xs)"
        using 1(1) True 1(2) by simp
      then show ?thesis using unf Suc by (simp add: add.assoc)
    qed
  next
    case False
    then have "batches_from xs n i = []" by (subst batches_from.simps) simp
    then show ?thesis using 1(3) by simp
  qed
qed

text \<open>
  C8. For a chunk size \<open>n \<ge> 1\<close>, \<open>batches\<close> returns without an exception, and the
  chunks it yields are \<open>\<lceil>L / n\<rceil>\<close> in number for a sequence of length \<open>L\<close>; chunk
  \<open>j\<close> holds the \<open>n\<close> elements from position \<open>j * n\<close> on (fewer at the end), so the
  chunks come in order; every chunk but the last has length \<open>n\<close>; the last chunk, when
  there is one, has length \<open>L - n * (\<lceil>L / n\<rceil> - 1)\<close>; the concatenation of the chunks is
  the sequence; and a sequence of 7 elements with \<open>n = 3\<close> gives chunks of lengths 3, 3, 1.
\<close>

theorem batches_chunks:
  fixes iterable :: "'a list" and n :: int
  assumes "1 \<le> n"
  shows "\<exists>chunks. batches iterable n = Inr chunks
     \<and> int (length chunks) = \<lceil>real (length iterable) / real_of_int n\<rceil>
     \<and> (\<forall>j. j < length chunks \<longrightarrow> chunks ! j = take (nat n) (drop (j * nat n) iterable))
     \<and> (\<forall>j. Suc j < length chunks \<longrightarrow> int (length (chunks ! j)) = n)
     \<and> (chunks \<noteq> [] \<longrightarrow> int (length (last chunks))
            = int (length iterable) - n * (\<lceil>real (length iterable) / real_of_int n\<rceil> - 1))
     \<and> concat chunks = iterable
     \<and> (length iterable = 7 \<and> n = 3 \<longrightarrow> map length chunks = [3, 3, 1])"
proof -
  define m where "m = nat n"
  define L where "L = length iterable"
  define chunks where "chunks = batches_from iterable m 0"
  define c where "c = (L + m - 1) div m"
  have m: "0 < m" and nm: "n = int m"
    using assms by (simp_all add: m_def)
  have run: "batches iterable n = Inr chunks"
    using assms by (simp add: batches_def chunks_def m_def)
  have len: "length chunks = c"
    using batches_from_length [OF m, of iterable 0] by (simp add: chunks_def c_def L_def)
  have ceil: "int c = \<lceil>real L / real_of_int n\<rceil>"
    using ceil_div_ceiling [OF m, of L] by (simp add: c_def nm)
  have nth: "chunks ! j = take m (drop (j * m) iterable)" if "j < length chunks" for j
    using batches_from_nth [OF m, of j iterable 0] that by (simp add: chunks_def)
  have nth_len: "length (chunks ! j) = min m (L - j * m)" if "j < length chunks" for j
    using nth [OF that] by (simp add: L_def min.commute)
  have upper: "L \<le> c * m"
    using ceil_div_upper [OF m, of L] by (simp add: c_def)
  have full: "length (chunks ! j) = m" if "Suc j < length chunks" for j
  proof -
    have pos: "0 < L"
    proof (rule ccontr)
      assume "\<not> 0 < L"
      then have "c = 0" using m by (simp add: c_def)
      then show False using that len by simp
    qed
    have "Suc j \<le> c - 1" using that len by simp
    then have "Suc j * m \<le> (c - 1) * m" by (rule mult_le_mono1)
    also have "\<dots> < L" using ceil_div_lower [OF m pos] by (simp add: c_def)
    finally have "m \<le> L - j * m" by simp
    then show ?thesis using nth_len [of j] that by simp
  qed
  have lst: "int (length (last chunks)) = int L - n * (int c - 1)" if "chunks \<noteq> []"
  proof -
    have c1: "1 \<le> c" using that len by (cases chunks) auto
    have "last chunks = chunks ! (c - 1)"
      using that len by (simp add: last_conv_nth)
    then have "length (last chunks) = min m (L - (c - 1) * m)"
      using nth_len [of "c - 1"] c1 len by simp
    moreover have "L - (c - 1) * m \<le> m"
      using upper c1 by (simp add: diff_mult_distrib)
    moreover have "(c - 1) * m \<le> L"
    proof -
      have "0 < L"
      proof (rule ccontr)
        assume "\<not> 0 < L"
        then have "c = 0" using m by (simp add: c_def)
        then show False using c1 by simp
      qed
      then show ?thesis using ceil_div_lower [OF m, of L] by (simp add: c_def)
    qed
    ultimately have "int (length (last chunks)) = int L - int ((c - 1) * m)"
      by simp
    also have "int ((c - 1) * m) = n * (int c - 1)"
      using c1 by (simp add: nm of_nat_diff)
    finally show ?thesis .
  qed
  have cat: "concat chunks = iterable"
    using batches_from_concat [OF m, of iterable 0] by (simp add: chunks_def)
  have seven: "map length chunks = [3, 3, 1]" if "length iterable = 7 \<and> n = 3"
  proof -
    have m3: "m = 3" and L7: "L = 7" using that by (simp_all add: m_def L_def)
    have c3: "length chunks = 3" using len by (simp add: c_def m3 L7)
    have "length (chunks ! 0) = 3" "length (chunks ! 1) = 3" "length (chunks ! 2) = 1"
      using nth_len [of 0] nth_len [of 1] nth_len [of 2] c3 by (simp_all add: m3 L7)
    then show ?thesis
      using c3 by (auto simp: list_eq_iff_nth_eq less_Suc_eq numeral_3_eq_3 numeral_2_eq_2)
  qed
  show ?thesis
    using run ceil nth full lst cat seven len
    by (intro exI [of _ chunks]) (simp add: L_def nm)
qed

theorem batches_chunks_witness:
  "(1::int) \<le> 3 \<and>
   (\<exists>chunks. batches [1, 2, 3, 4, 5, 6, 7 :: nat] 3 = Inr chunks
     \<and> int (length chunks) = \<lceil>real (length [1, 2, 3, 4, 5, 6, 7 :: nat]) / real_of_int 3\<rceil>
     \<and> (\<forall>j. j < length chunks \<longrightarrow> chunks ! j = take (nat 3) (drop (j * nat 3) [1, 2, 3, 4, 5, 6, 7]))
     \<and> (\<forall>j. Suc j < length chunks \<longrightarrow> int (length (chunks ! j)) = 3)
     \<and> (chunks \<noteq> [] \<longrightarrow> int (length (last chunks))
            = int (length [1, 2, 3, 4, 5, 6, 7 :: nat]) - 3 * (\<lceil>real (length [1, 2, 3, 4, 5, 6, 7 :: nat]) / real_of_int 3\<rceil> - 1))
     \<and> concat chunks = [1, 2, 3, 4, 5, 6, 7]
     \<and> (length [1, 2, 3, 4, 5, 6, 7 :: nat] = 7 \<and> (3::int) = 3 \<longrightarrow> map length chunks = [3, 3, 1]))"
proof
  show "(1::int) \<le> 3" by simp
  then show "\<exists>chunks. batches [1, 2, 3, 4, 5, 6, 7 :: nat] 3 = Inr chunks
     \<and> int (length chunks) = \<lceil>real (length [1, 2, 3, 4, 5, 6, 7 :: nat]) / real_of_int 3\<rceil>
     \<and> (\<forall>j. j < length chunks \<longrightarrow> chunks ! j = take (nat 3) (drop (j * nat 3) [1, 2, 3, 4, 5, 6, 7]))
     \<and> (\<forall>j. Suc j < length chunks \<longrightarrow> int (length (chunks ! j)) = 3)
     \<and> (chunks \<noteq> [] \<longrightarrow> int (length (last chunks))
            = int (length [1, 2, 3, 4, 5, 6, 7 :: nat]) - 3 * (\<lceil>real (length [1, 2, 3, 4, 5, 6, 7 :: nat]) / real_of_int 3\<rceil> - 1))
     \<and> concat chunks = [1, 2, 3, 4, 5, 6, 7]
     \<and> (length [1, 2, 3, 4, 5, 6, 7 :: nat] = 7 \<and> (3::int) = 3 \<longrightarrow> map length chunks = [3, 3, 1])"
    by (rule batches_chunks)
qed

section \<open>Properties of findall and of the section loop\<close>

lemma findall_Nil: "findall e [] = [e]"
  by (simp add: findall_def)

lemma findall_Child: "findall e [Child tg ps] = filter (matches tg ps) (elem_children e)"
  by (simp add: findall_def)

lemma findall_Descendant: "findall e [Descendant tg ps] = filter (matches tg ps) (descendants e)"
  by (simp add: findall_def)

lemma find_elem_None_iff: "find_elem e p = None \<longleftrightarrow> findall e p = []"
  by (simp add: find_elem_def split: list.splits)

lemma find_elem_Some_mem: "find_elem e p = Some x \<Longrightarrow> x \<in> set (findall e p)"
  by (auto simp: find_elem_def split: list.splits)

lemma findtext_find_elem:
  "findtext e p = map_option (\<lambda>x. case elem_text x of None \<Rightarrow> [] | Some t \<Rightarrow> t) (find_elem e p)"
  by (simp add: findtext_def split: option.splits)

lemma add_rendered_eq:
  "add_rendered sep ret_str nodes = ret_str @ concat (map (\<lambda>n. render_text n @ sep) nodes)"
  by (induction nodes arbitrary: ret_str) simp_all

lemma section_step:
  "(case (find_elem sec [Child ''title'' []], findtext sec [Child ''title'' []]) of
      (Some title, Some title_text) \<Rightarrow>
        if sublist section (str_lower title_text)
        then (let ret_title = ret_str @ render_text title @ '': ''
              in if find_elem sec [Descendant ''p'' []] \<noteq> None
                 then add_rendered ''\<newline>\<newline>'' ret_title (findall sec [Descendant ''p'' []])
                 else ret_title)
        else ret_str
    | _ \<Rightarrow> ret_str)
   = ret_str @ (if title_matches section sec then section_contribution sec else [])"
proof (cases "find_elem sec [Child ''title'' []]")
  case None
  then show ?thesis
    by (simp add: title_matches_def)
next
  case (Some title)
  have p: "find_elem sec [Descendant ''p'' []] = None \<longleftrightarrow> findall sec [Descendant ''p'' []] = []"
    by (rule find_elem_None_iff)
  show ?thesis
    by (simp add: Some findtext_find_elem title_matches_def section_contribution_def
        add_rendered_eq p Let_def)
qed

lemma section_loop_eq:
  "section_loop section ret_str secs =
     ret_str @ concat (map section_contribution (filter (title_matches section) secs))"
proof (induction secs arbitrary: ret_str)
  case Nil
  show ?case by simp
next
  case (Cons sec secs)
  show ?case
    by (simp only: section_loop.simps section_step Cons.IH) simp
qed

lemma section_contribution_nonempty:
  "title_matches section sec \<Longrightarrow> section_contribution sec \<noteq> []"
  by (auto simp: title_matches_def section_contribution_def split: option.splits)

lemma getSection_eq:
  "getSection element path section dflt =
     (if filter (title_matches section) (findall element path) = [] then dflt
      else Some (concat (map section_contribution
                   (filter (title_matches section) (findall element path)))))"
proof -
  let ?ms = "filter (title_matches section) (findall element path)"
  have "concat (map section_contribution ?ms) = [] \<longleftrightarrow> ?ms = []"
  proof
    assume a: "concat (map section_contribution ?ms) = []"
    show "?ms = []"
    proof (rule ccontr)
      assume "?ms \<noteq> []"
      then obtain m where m: "m \<in> set ?ms" by (cases ?ms) auto
      then have "section_contribution m \<noteq> []"
        using section_contribution_nonempty [of "section" m] by simp
      moreover have "section_contribution m = []" using a m by auto
      ultimately show False by simp
    qed
  qed simp
  then show ?thesis
    by (simp add: getSection_def section_loop_eq Let_def)
qed

section \<open>Text extraction and keywords\<close>

text \<open>
  C2. In the document \<^verbatim>\<open><PubmedArticle><ArticleTitle><i>Cells</i> in vivo</ArticleTitle></PubmedArticle>\<close>
  the selector \<^verbatim>\<open>.//ArticleTitle\<close> has a match and no match carries text;
  \<open>getContent\<close> with the default \<open>None\<close> returns the empty string there, not the
  default, and so does the title extractor.
\<close>

theorem getContent_matches_without_text:
  "findall markup_title_doc [Descendant ''ArticleTitle'' []] \<noteq> []
   \<and> list_all (\<lambda>sub. elem_text sub = None) (findall markup_title_doc [Descendant ''ArticleTitle'' []])
   \<and> getContent markup_title_doc [Descendant ''ArticleTitle'' []] None ''\<newline>'' = Some []
   \<and> PubMed_extractTitle markup_title_doc = Some []"
  by code_simp

text \<open>
  C5. For three keyword nodes of which the second carries no text, the keyword
  extractors of both schemas return a list of three entries whose second entry is
  \<open>None\<close>: the node without text is not dropped.
\<close>

theorem extractKeywords_keeps_empty_nodes:
  "PubMed_extractKeywords keywords_doc = [Some ''yeast'', None, Some ''ageing'']
   \<and> PMC_extractKeywords kwd_doc = [Some ''yeast'', None, Some ''ageing'']"
  by code_simp

section \<open>Canonical sections\<close>

lemma getSection_contains:
  assumes "sec \<in> set (findall element path)" and "title_matches name sec"
  shows "\<exists>before after.
           getSection element path name dflt = Some (before @ section_contribution sec @ after)"
proof -
  let ?ms = "filter (title_matches name) (findall element path)"
  have "sec \<in> set ?ms" using assms by simp
  then obtain ys zs where split: "?ms = ys @ sec # zs"
    by (meson split_list)
  then have "getSection element path name dflt = Some (concat (map section_contribution ?ms))"
    by (simp add: getSection_eq)
  also have "concat (map section_contribution ?ms) =
      concat (map section_contribution ys) @ section_contribution sec
        @ concat (map section_contribution zs)"
    by (simp only: split map_append concat_append list.map concat.simps)
  finally show ?thesis by blast
qed

lemma getBodySections_eq:
  "getBodySections element path dflt =
     (getSection element path ''introduction'' dflt, getSection element path ''methods'' dflt,
      getSection element path ''results'' dflt, getSection element path ''discussion'' dflt,
      getSection element path ''conclusion'' dflt)"
  by (simp add: getBodySections_def Let_def)

text \<open>
  The five canonical fields are five calls of \<open>getSection\<close> on the same sections, one
  per canonical name, and each call depends on the name and the sections only: its
  result is the concatenation, in document order, of the contributions of the sections
  that pass the test of \<open>title_matches\<close> for the name, and the default when there is
  none. A section that passes the test for two names contributes to both buckets. The
  sections with the plain titles \<^verbatim>\<open>Methods and Materials\<close> and
  \<^verbatim>\<open>Results and Discussion\<close> pass the tests for \<^verbatim>\<open>methods\<close>, and for
  \<^verbatim>\<open>results\<close> and \<^verbatim>\<open>discussion\<close>.
\<close>

lemma buckets_by_direct_title_text:
  "getBodySections element path dflt =
     (getSection element path ''introduction'' dflt, getSection element path ''methods'' dflt,
      getSection element path ''results'' dflt, getSection element path ''discussion'' dflt,
      getSection element path ''conclusion'' dflt)
   \<and> (\<forall>name. getSection element path name dflt =
         (if filter (title_matches name) (findall element path) = [] then dflt
          else Some (concat (map section_contribution
                       (filter (title_matches name) (findall element path))))))
   \<and> (\<forall>name sec. sec \<in> set (findall element path) \<and> title_matches name sec \<longrightarrow>
         (\<exists>before after.
            getSection element path name dflt = Some (before @ section_contribution sec @ after)))
   \<and> (\<forall>name1 name2 sec.
         sec \<in> set (findall element path) \<and> title_matches name1 sec \<and> title_matches name2 sec \<longrightarrow>
         (\<exists>before1 after1 before2 after2.
            getSection element path name1 dflt = Some (before1 @ section_contribution sec @ after1)
            \<and> getSection element path name2 dflt = Some (before2 @ section_contribution sec @ after2)))
   \<and> title_matches ''methods'' methods_sec
   \<and> title_matches ''results'' results_sec
   \<and> title_matches ''discussion'' results_sec
   \<and> PMC_extractBodySections two_sections_doc =
       (None,
        Some ''Methods and Materials: We measured.\<newline>\<newline>'',
        Some ''Results and Discussion: It worked .\<newline>\<newline>'',
        Some ''Results and Discussion: It worked .\<newline>\<newline>'',
        None)"
proof -
  have a: "\<forall>name sec. sec \<in> set (findall element path) \<and> title_matches name sec \<longrightarrow>
         (\<exists>before after.
            getSection element path name dflt = Some (before @ section_contribution sec @ after))"
    using getSection_contains by blast
  have b: "\<forall>name1 name2 sec.
         sec \<in> set (findall element path) \<and> title_matches name1 sec \<and> title_matches name2 sec \<longrightarrow>
         (\<exists>before1 after1 before2 after2.
            getSection element path name1 dflt = Some (before1 @ section_contribution sec @ after1)
            \<and> getSection element path name2 dflt = Some (before2 @ section_contribution sec @ after2))"
    using getSection_contains by (metis (no_types))
  have c: "title_matches ''methods'' methods_sec" by code_simp
  have d: "title_matches ''results'' results_sec" by code_simp
  have e: "title_matches ''discussion'' results_sec" by code_simp
  have f: "PMC_extractBodySections two_sections_doc =
       (None,
        Some ''Methods and Materials: We measured.\<newline>\<newline>'',
        Some ''Results and Discussion: It worked .\<newline>\<newline>'',
        Some ''Results and Discussion: It worked .\<newline>\<newline>'',
        None)" by code_simp
  show ?thesis
    using getBodySections_eq getSection_eq a b c d e f by (intro conjI allI) blast+
qed

text \<open>
  C1. The section
  \<^verbatim>\<open><sec><title><bold>Methods and Materials</bold></title><p>We measured.</p></sec>\<close>
  is the only section of its body. Its title node has no direct text, so
  \<^verbatim>\<open>findtext\<close> gives the empty string, although the title renders as
  \<^verbatim>\<open>Methods and Materials\<close>, whose lower-cased text contains \<^verbatim>\<open>methods\<close>. The
  section is in no canonical bucket: all five fields are absent, while the whole-body
  field shows the section under its title. With the plain titles
  \<^verbatim>\<open>Methods and Materials\<close> and \<^verbatim>\<open>Results and Discussion\<close> the sections are in
  the methods bucket, and in the results and the discussion bucket.
\<close>

theorem markup_title_not_classified:
  "findall bold_methods_doc [Descendant ''body'' [], Child ''sec'' []] = [bold_methods_sec]
   \<and> find_elem bold_methods_sec [Child ''title'' []]
       = Some (Element ''title'' [] None None [Element ''bold'' [] (Some ''Methods and Materials'') None []])
   \<and> findtext bold_methods_sec [Child ''title'' []] = Some []
   \<and> render_text (Element ''title'' [] None None
                    [Element ''bold'' [] (Some ''Methods and Materials'') None []])
       = ''Methods and Materials''
   \<and> sublist ''methods'' (str_lower ''Methods and Materials'')
   \<and> getSection bold_methods_doc [Descendant ''body'' [], Child ''sec'' []] ''methods'' None = None
   \<and> PMC_extractBodySections bold_methods_doc = (None, None, None, None, None)
   \<and> PMC_extractBody bold_methods_doc = Some ''Methods and Materials: We measured.\<newline>\<newline>''
   \<and> PMC_extractBodySections two_sections_doc =
       (None,
        Some ''Methods and Materials: We measured.\<newline>\<newline>'',
        Some ''Results and Discussion: It worked .\<newline>\<newline>'',
        Some ''Results and Discussion: It worked .\<newline>\<newline>'',
        None)"
  by code_simp

section \<open>Rendering of titles and paragraphs\<close>

lemma fragment_Some: "s \<noteq> [] \<Longrightarrow> fragment (Some s) = [s]"
  by (simp add: fragment_def)

lemma fragment_None: "fragment None = []"
  by (simp add: fragment_def)

lemma set_fragment: "t \<in> set (fragment x) \<longleftrightarrow> t \<noteq> [] \<and> x = Some t"
  by (auto simp: fragment_def split: option.splits)

lemma itertext_fragments:
  "t \<in> set (itertext node) \<longleftrightarrow>
     t \<noteq> [] \<and> (elem_text node = Some t
               \<or> (\<exists>d \<in> set (descendants node). elem_text d = Some t \<or> elem_tail d = Some t))"
proof (induction node)
  case (Element tg attrs tx tail_text cs)
  have ih: "t \<in> set (itertext c) \<longleftrightarrow>
     t \<noteq> [] \<and> (elem_text c = Some t
               \<or> (\<exists>d \<in> set (descendants c). elem_text d = Some t \<or> elem_tail d = Some t))"
    if "c \<in> set cs" for c
    using Element that by blast
  show ?case
  proof
    assume "t \<in> set (itertext (Element tg attrs tx tail_text cs))"
    then consider "t \<in> set (fragment tx)"
      | c where "c \<in> set cs" "t \<in> set (itertext c)"
      | c where "c \<in> set cs" "t \<in> set (fragment (elem_tail c))"
      by auto
    then show "t \<noteq> [] \<and> (elem_text (Element tg attrs tx tail_text cs) = Some t
               \<or> (\<exists>d \<in> set (descendants (Element tg attrs tx tail_text cs)).
                     elem_text d = Some t \<or> elem_tail d = Some t))"
    proof cases
      case 1
      then show ?thesis by (simp add: set_fragment)
    next
      case 2
      then show ?thesis using ih [of c] by auto
    next
      case 3
      then show ?thesis by (auto simp: set_fragment)
    qed
  next
    assume r: "t \<noteq> [] \<and> (elem_text (Element tg attrs tx tail_text cs) = Some t
               \<or> (\<exists>d \<in> set (descendants (Element tg attrs tx tail_text cs)).
                     elem_text d = Some t \<or> elem_tail d = Some t))"
    then consider "tx = Some t"
      | c where "c \<in> set cs" "elem_text c = Some t \<or> elem_tail c = Some t"
      | c d where "c \<in> set cs" "d \<in> set (descendants c)" "elem_text d = Some t \<or> elem_tail d = Some t"
      by auto
    then show "t \<in> set (itertext (Element tg attrs tx tail_text cs))"
    proof cases
      case 1
      then show ?thesis using r by (simp add: set_fragment)
    next
      case 2
      then show ?thesis using r ih [of c] by (auto simp: set_fragment)
    next
      case 3
      then show ?thesis using r ih [of c] by auto
    qed
  qed
qed

lemma str_join_Cons: "str_join sep (f # fs) = f @ concat (map (\<lambda>g. sep @ g) fs)"
  by (induction fs arbitrary: f) simp_all

lemma str_strip_split:
  "\<exists>l r. s = l @ str_strip s @ r \<and> list_all isspace l \<and> list_all isspace r"
proof -
  let ?m = "dropWhile isspace s"
  let ?l = "takeWhile isspace s"
  let ?r = "rev (takeWhile isspace (rev ?m))"
  have "?m = rev (dropWhile isspace (rev ?m)) @ rev (takeWhile isspace (rev ?m))"
    by (metis takeWhile_dropWhile_id rev_append rev_rev_ident)
  then have m: "?m = str_strip s @ ?r"
    by (simp only: str_strip_def)
  have "s = ?l @ ?m" by simp
  then have "s = ?l @ str_strip s @ ?r" using m by simp
  moreover have "list_all isspace ?l"
    by (auto simp: list_all_iff dest: set_takeWhileD)
  moreover have "list_all isspace ?r"
    by (auto simp: list_all_iff dest: set_takeWhileD)
  ultimately show ?thesis by blast
qed

lemma str_strip_ends:
  assumes "str_strip s \<noteq> []"
  shows "\<not> isspace (hd (str_strip s)) \<and> \<not> isspace (last (str_strip s))"
proof -
  let ?m = "dropWhile isspace s"
  let ?d = "dropWhile isspace (rev ?m)"
  have d: "?d \<noteq> []" using assms by (simp add: str_strip_def)
  then have "\<not> isspace (hd ?d)" by (rule hd_dropWhile)
  then have last: "\<not> isspace (last (str_strip s))"
    using d by (simp add: str_strip_def last_rev)
  have mne: "?m \<noteq> []"
  proof
    assume a: "?m = []"
    have "?d = []" unfolding a by simp
    with d show False by (rule notE)
  qed
  then have hm: "\<not> isspace (hd ?m)" by (rule hd_dropWhile)
  have "?m = rev ?d @ rev (takeWhile isspace (rev ?m))"
    by (metis takeWhile_dropWhile_id rev_append rev_rev_ident)
  then have "?m = str_strip s @ rev (takeWhile isspace (rev ?m))"
    by (simp only: str_strip_def)
  then have "hd ?m = hd (str_strip s)"
    using assms by (metis hd_append2)
  then show ?thesis using hm last by simp
qed

lemma isspace_code_points:
  "isspace c \<longleftrightarrow> (of_char c :: nat) \<in> {9, 10, 11, 12, 13, 28, 29, 30, 31, 32, 133, 160}"
  by (auto simp: isspace_def Let_def)

text \<open>
  C7. The rendered text of a node is the space-join of its text fragments, each one
  stripped. The fragments are what \<open>itertext\<close> yields: the text of the node and then,
  for every child in order, the fragments of the child and its tail; a non-empty string
  is a fragment exactly when it is the text of the node or the text or the tail of an
  element below it. The join puts the separator between consecutive fragments.
  Stripping takes white space off both ends and nothing else: what is cut off is white
  space only (code points 9 to 13, 28 to 32, 133 and 160), and what is left neither
  starts nor ends with white space. A node with direct text \<open>a\<close> and one empty inline
  child with tail \<open>b\<close> has the fragments \<open>a\<close> and \<open>b\<close> and renders as the two stripped
  fragments with one space between them. The title
  \<^verbatim>\<open><title>Intro<ref/>duction</title>\<close> renders as \<^verbatim>\<open>Intro duction\<close>, which is
  neither \<^verbatim>\<open>Introduction\<close> nor empty, and getBody puts this text in front of the
  colon. The title with white space around its six fragments and markup inside markup
  renders as \<^verbatim>\<open>Results 1 and Discussion\<close> followed by two spaces (the last two
  fragments are white space only), and getSection, for the canonical name
  \<^verbatim>\<open>results\<close>, and getBody put this text in front of the colon and the rendered
  paragraph behind it.
\<close>

theorem split_title_rendering:
  "render_text node = str_join '' '' (map str_strip (itertext node))
   \<and> (a \<noteq> [] \<and> b \<noteq> [] \<longrightarrow>
        itertext (Element tg attrs (Some a) tail_text [Element tg' attrs' None (Some b) []]) = [a, b]
        \<and> render_text (Element tg attrs (Some a) tail_text [Element tg' attrs' None (Some b) []])
            = str_strip a @ '' '' @ str_strip b)
   \<and> itertext (Element tg attrs tx tail_text cs)
       = fragment tx @ concat (map (\<lambda>c. itertext c @ fragment (elem_tail c)) cs)
   \<and> (t \<in> set (itertext node) \<longleftrightarrow>
        t \<noteq> [] \<and> (elem_text node = Some t
                  \<or> (\<exists>d \<in> set (descendants node). elem_text d = Some t \<or> elem_tail d = Some t)))
   \<and> str_join sep (f # fs) = f @ concat (map (\<lambda>g. sep @ g) fs)
   \<and> (\<exists>l r. s = l @ str_strip s @ r \<and> list_all isspace l \<and> list_all isspace r)
   \<and> (str_strip s \<noteq> [] \<longrightarrow> \<not> isspace (hd (str_strip s)) \<and> \<not> isspace (last (str_strip s)))
   \<and> (isspace c \<longleftrightarrow> (of_char c :: nat) \<in> {9, 10, 11, 12, 13, 28, 29, 30, 31, 32, 133, 160})
   \<and> render_text intro_title = ''Intro duction''
   \<and> render_text intro_title \<noteq> ''Introduction''
   \<and> render_text intro_title \<noteq> []
   \<and> getBody intro_doc [Descendant ''body'' []] None = Some ''Intro duction: ''
   \<and> itertext spaced_title
       = [[CHR 0x0A, CHR '' '', CHR '' '', CHR ''R'', CHR ''e'', CHR ''s'', CHR ''u'', CHR ''l'',
           CHR ''t'', CHR ''s'', CHR '' ''],
          '' 1 '', [CHR 0x09, CHR ''a'', CHR ''n'', CHR ''d'', CHR '' ''], '' Discussion'', '' '',
          [CHR 0x0A]]
   \<and> render_text spaced_title = ''Results 1 and Discussion  ''
   \<and> render_text spaced_paragraph = ''It worked .''
   \<and> getSection spaced_doc [Descendant ''body'' [], Child ''sec'' []] ''results'' None
       = Some ''Results 1 and Discussion  : It worked .\<newline>\<newline>''
   \<and> getBody spaced_doc [Descendant ''body'' []] None
       = Some ''Results 1 and Discussion  : It worked .\<newline>\<newline>''"
proof -
  have a: "render_text node = str_join '' '' (map str_strip (itertext node))"
    by (simp add: render_text_def)
  have b: "a \<noteq> [] \<and> b \<noteq> [] \<longrightarrow>
        itertext (Element tg attrs (Some a) tail_text [Element tg' attrs' None (Some b) []]) = [a, b]
        \<and> render_text (Element tg attrs (Some a) tail_text [Element tg' attrs' None (Some b) []])
            = str_strip a @ '' '' @ str_strip b"
    by (simp add: render_text_def fragment_Some fragment_None)
  have c: "itertext (Element tg attrs tx tail_text cs)
       = fragment tx @ concat (map (\<lambda>c. itertext c @ fragment (elem_tail c)) cs)"
    by simp
  have d: "render_text intro_title = ''Intro duction''" by code_simp
  have e: "render_text intro_title \<noteq> ''Introduction''" by code_simp
  have f: "render_text intro_title \<noteq> []" by code_simp
  have g: "getBody intro_doc [Descendant ''body'' []] None = Some ''Intro duction: ''"
    by code_simp
  have h: "itertext spaced_title
       = [[CHR 0x0A, CHR '' '', CHR '' '', CHR ''R'', CHR ''e'', CHR ''s'', CHR ''u'', CHR ''l'',
           CHR ''t'', CHR ''s'', CHR '' ''],
          '' 1 '', [CHR 0x09, CHR ''a'', CHR ''n'', CHR ''d'', CHR '' ''], '' Discussion'', '' '',
          [CHR 0x0A]]"
    by code_simp
  have i: "render_text spaced_title = ''Results 1 and Discussion  ''" by code_simp
  have j: "render_text spaced_paragraph = ''It worked .''" by code_simp
  have k: "getSection spaced_doc [Descendant ''body'' [], Child ''sec'' []] ''results'' None
       = Some ''Results 1 and Discussion  : It worked .\<newline>\<newline>''"
    by code_simp
  have l: "getBody spaced_doc [Descendant ''body'' []] None
       = Some ''Results 1 and Discussion  : It worked .\<newline>\<newline>''"
    by code_simp
  show ?thesis
    using a b c itertext_fragments [of t node] str_join_Cons [of sep f fs] str_strip_split [of s]
      str_strip_ends [of s] isspace_code_points [of c] d e f g h i j k l
    by (intro conjI impI) blast+
qed

text \<open>
  The fragments \<^verbatim>\<open>Intro\<close> and \<^verbatim>\<open>duction\<close>, and the fragment \<^verbatim>\<open>1\<close> between
  two spaces.
\<close>

theorem split_title_rendering_witness:
  "''Intro'' \<noteq> [] \<and> ''duction'' \<noteq> []
   \<and> render_text (Element ''title'' [] (Some ''Intro'') None
                    [Element ''ref'' [] None (Some ''duction'') []])
       = ''Intro duction''
   \<and> str_strip '' 1 '' \<noteq> []
   \<and> \<not> isspace (hd (str_strip '' 1 '')) \<and> \<not> isspace (last (str_strip '' 1 ''))"
proof -
  have h: "''Intro'' \<noteq> [] \<and> ''duction'' \<noteq> []" by simp
  have s: "str_strip ''Intro'' @ '' '' @ str_strip ''duction'' = ''Intro duction''" by code_simp
  have n: "str_strip '' 1 '' \<noteq> []" by code_simp
  note t = split_title_rendering
    [of intro_title "''Intro''" "''duction''" "''title''" "[]" None "''ref''" "[]" None "[]"
        "[]" "[]" "[]" "[]" "'' 1 ''"]
  from t have "''Intro'' \<noteq> [] \<and> ''duction'' \<noteq> [] \<longrightarrow>
        itertext (Element ''title'' [] (Some ''Intro'') None
                    [Element ''ref'' [] None (Some ''duction'') []]) = [''Intro'', ''duction'']
        \<and> render_text (Element ''title'' [] (Some ''Intro'') None
                    [Element ''ref'' [] None (Some ''duction'') []])
            = str_strip ''Intro'' @ '' '' @ str_strip ''duction''"
    by blast
  with h s have r: "render_text (Element ''title'' [] (Some ''Intro'') None
                    [Element ''ref'' [] None (Some ''duction'') []]) = ''Intro duction''"
    by simp
  from t have "str_strip '' 1 '' \<noteq> [] \<longrightarrow>
      \<not> isspace (hd (str_strip '' 1 '')) \<and> \<not> isspace (last (str_strip '' 1 ''))"
    by blast
  with n have "\<not> isspace (hd (str_strip '' 1 '')) \<and> \<not> isspace (last (str_strip '' 1 ''))"
    by blast
  with h r n show ?thesis by blast
qed

section \<open>The match of a title and the bucket of a section without paragraphs\<close>

text \<open>
  The section titled \<^verbatim>\<open><title>Metho<i/>ds</title>\<close> is not in the methods bucket, but
  its rendered title is \<^verbatim>\<open>Metho ds\<close>, with a space between the fragments: the
  rendered title does not contain the name either.
\<close>

theorem split_keyword_counterexample:
  "\<not> (getSection split_doc [Descendant ''body'' [], Child ''sec'' []] ''methods'' None = None
      \<and> sublist ''methods'' (str_lower (render_text split_title)))"
  by code_simp

lemma section_loop_single:
  assumes "find_elem sec [Child ''title'' []] = Some title"
  shows "section_loop name ret_str [sec] =
        (if sublist name (str_lower (case elem_text title of None \<Rightarrow> [] | Some t \<Rightarrow> t))
         then ret_str @ render_text title @ '': ''
                @ concat (map (\<lambda>p. render_text p @ ''\<newline>\<newline>'') (findall sec [Descendant ''p'' []]))
         else ret_str)"
  using assms by (simp add: section_loop_eq title_matches_def section_contribution_def)

text \<open>
  C9, as amended. For a section with a title node, the match tests the lower-cased
  direct text of that node only (the empty string when the node has none), while the
  text put into the bucket of a matching section is the rendering of all fragments of
  the title. When no section matches by its direct title text, the field is the
  default. A section whose name is split by inline markup (\<^verbatim>\<open>Metho<i/>ds\<close>) is not
  in the bucket, and its rendered title, \<^verbatim>\<open>Metho ds\<close>, does not contain the name. A
  section whose name stands inside inline markup (\<^verbatim>\<open><title><i>Methods</i></title>\<close>)
  is not in the bucket although its rendered title contains the name.
\<close>

theorem match_tests_direct_text:
  "(find_elem sec [Child ''title'' []] = Some title \<longrightarrow>
      title_matches name sec
        = sublist name (str_lower (case elem_text title of None \<Rightarrow> [] | Some t \<Rightarrow> t))
      \<and> section_loop name ret_str [sec] =
        (if sublist name (str_lower (case elem_text title of None \<Rightarrow> [] | Some t \<Rightarrow> t))
         then ret_str @ render_text title @ '': ''
                @ concat (map (\<lambda>p. render_text p @ ''\<newline>\<newline>'') (findall sec [Descendant ''p'' []]))
         else ret_str))
   \<and> ((\<forall>s. s \<in> set (findall element path) \<longrightarrow> \<not> title_matches name s) \<longrightarrow>
        getSection element path name dflt = dflt)
   \<and> getSection split_doc [Descendant ''body'' [], Child ''sec'' []] ''methods'' None = None
   \<and> render_text split_title = ''Metho ds''
   \<and> \<not> sublist ''methods'' (str_lower (render_text split_title))
   \<and> getSection italic_doc [Descendant ''body'' [], Child ''sec'' []] ''methods'' None = None
   \<and> render_text italic_title = ''Methods''
   \<and> sublist ''methods'' (str_lower (render_text italic_title))"
proof -
  have a: "find_elem sec [Child ''title'' []] = Some title \<longrightarrow>
      title_matches name sec
        = sublist name (str_lower (case elem_text title of None \<Rightarrow> [] | Some t \<Rightarrow> t))
      \<and> section_loop name ret_str [sec] =
        (if sublist name (str_lower (case elem_text title of None \<Rightarrow> [] | Some t \<Rightarrow> t))
         then ret_str @ render_text title @ '': ''
                @ concat (map (\<lambda>p. render_text p @ ''\<newline>\<newline>'') (findall sec [Descendant ''p'' []]))
         else ret_str)"
    using section_loop_single by (simp add: title_matches_def)
  have b: "(\<forall>s. s \<in> set (findall element path) \<longrightarrow> \<not> title_matches name s) \<longrightarrow>
        getSection element path name dflt = dflt"
    by (simp add: getSection_eq filter_empty_conv)
  have c: "getSection split_doc [Descendant ''body'' [], Child ''sec'' []] ''methods'' None = None"
    by code_simp
  have d: "render_text split_title = ''Metho ds''" by code_simp
  have e: "\<not> sublist ''methods'' (str_lower (render_text split_title))" by code_simp
  have f: "getSection italic_doc [Descendant ''body'' [], Child ''sec'' []] ''methods'' None = None"
    by code_simp
  have g: "render_text italic_title = ''Methods''" by code_simp
  have h: "sublist ''methods'' (str_lower (render_text italic_title))" by code_simp
  show ?thesis
    using a b c d e f g h by (intro conjI)
qed

text \<open>
  The section with the title \<^verbatim>\<open><title><i>Methods</i></title>\<close>.
\<close>

theorem match_tests_direct_text_witness:
  "find_elem (Element ''sec'' [] None None [italic_title]) [Child ''title'' []] = Some italic_title
   \<and> list_all (\<lambda>s. \<not> title_matches ''methods'' s)
         (findall italic_doc [Descendant ''body'' [], Child ''sec'' []])
   \<and> \<not> title_matches ''methods'' (Element ''sec'' [] None None [italic_title])
   \<and> section_loop ''methods'' ''abc'' [Element ''sec'' [] None None [italic_title]] = ''abc''
   \<and> getSection italic_doc [Descendant ''body'' [], Child ''sec'' []] ''methods'' (Some ''d'') = Some ''d''"
proof -
  have h1: "find_elem (Element ''sec'' [] None None [italic_title]) [Child ''title'' []] = Some italic_title"
    by code_simp
  have h2': "list_all (\<lambda>s. \<not> title_matches ''methods'' s)
          (findall italic_doc [Descendant ''body'' [], Child ''sec'' []])"
    by code_simp
  then have h2: "\<forall>s. s \<in> set (findall italic_doc [Descendant ''body'' [], Child ''sec'' []])
          \<longrightarrow> \<not> title_matches ''methods'' s"
    by (simp add: list_all_iff)
  have n: "\<not> sublist ''methods'' (str_lower (case elem_text italic_title of None \<Rightarrow> [] | Some t \<Rightarrow> t))"
    by code_simp
  note t = match_tests_direct_text
    [of "Element ''sec'' [] None None [italic_title]" italic_title "''methods''" "''abc''"
        italic_doc "[Descendant ''body'' [], Child ''sec'' []]" "Some ''d''"]
  from t h1 n have "\<not> title_matches ''methods'' (Element ''sec'' [] None None [italic_title])"
    by simp
  moreover from t h1 n
  have "section_loop ''methods'' ''abc'' [Element ''sec'' [] None None [italic_title]] = ''abc''"
    by simp
  moreover from t h2
  have "getSection italic_doc [Descendant ''body'' [], Child ''sec'' []] ''methods'' (Some ''d'') = Some ''d''"
    by blast
  ultimately show ?thesis using h1 h2' by blast
qed

text \<open>
  Two sections match \<^verbatim>\<open>methods\<close>; the first has no paragraph below it, the second
  has one. The methods field ends with the blank line after that paragraph, not with
  a colon and a space.
\<close>

theorem title_only_section_counterexample:
  "bare_methods_sec \<in> set (findall two_methods_doc [Descendant ''body'' [], Child ''sec'' []])
   \<and> title_matches ''methods'' bare_methods_sec
   \<and> findall bare_methods_sec [Descendant ''p'' []] = []
   \<and> getSection two_methods_doc [Descendant ''body'' [], Child ''sec'' []] ''methods'' None
       = Some ''Methods: Methods used: Assays.\<newline>\<newline>''
   \<and> \<not> suffix '': '' ''Methods: Methods used: Assays.\<newline>\<newline>''"
  by code_simp

text \<open>
  C10, as amended. A section whose title matches a canonical name and which has no
  paragraph below it still puts its rendered title, a colon and a space into the bucket,
  so the field is a non-empty string and not the default; behind the colon and the space
  come the contributions of the later sections that match the same name, and the field
  ends with the colon and the space when no later section matches.
\<close>

theorem title_only_section_bucket:
  assumes "findall element path = pre @ sec # post"
    and "find_elem sec [Child ''title'' []] = Some title"
    and "title_matches name sec"
    and "findall sec [Descendant ''p'' []] = []"
  shows "\<exists>before bucket.
           getSection element path name dflt = Some bucket
           \<and> bucket \<noteq> []
           \<and> bucket = before @ render_text title @ '': ''
                @ concat (map section_contribution (filter (title_matches name) post))
           \<and> (filter (title_matches name) post = [] \<longrightarrow> suffix '': '' bucket)"
proof -
  let ?before = "concat (map section_contribution (filter (title_matches name) pre))"
  let ?after = "concat (map section_contribution (filter (title_matches name) post))"
  have contrib: "section_contribution sec = render_text title @ '': ''"
    using assms(2,4) by (simp add: section_contribution_def)
  have "filter (title_matches name) (findall element path) \<noteq> []"
    using assms(1,3) by simp
  then have "getSection element path name dflt =
      Some (?before @ (render_text title @ '': '') @ ?after)"
    using assms(1,3) contrib by (simp add: getSection_eq)
  moreover have "filter (title_matches name) post = [] \<longrightarrow>
      suffix '': '' (?before @ render_text title @ '': '' @ ?after)"
    by (simp add: suffix_def)
  ultimately show ?thesis by simp
qed

text \<open>
  The only section of the document with the split title; nothing follows it.
\<close>

theorem title_only_section_bucket_witness:
  "findall intro_doc [Descendant ''body'' [], Child ''sec'' []]
     = [] @ Element ''sec'' [] None None [intro_title] # []
   \<and> find_elem (Element ''sec'' [] None None [intro_title]) [Child ''title'' []] = Some intro_title
   \<and> title_matches ''intro'' (Element ''sec'' [] None None [intro_title])
   \<and> findall (Element ''sec'' [] None None [intro_title]) [Descendant ''p'' []] = []
   \<and> (\<exists>before bucket.
         getSection intro_doc [Descendant ''body'' [], Child ''sec'' []] ''intro'' None = Some bucket
         \<and> bucket \<noteq> []
         \<and> bucket = before @ render_text intro_title @ '': ''
         \<and> suffix '': '' bucket)"
proof -
  have h1: "findall intro_doc [Descendant ''body'' [], Child ''sec'' []]
     = [] @ Element ''sec'' [] None None [intro_title] # []" by code_simp
  have h2: "find_elem (Element ''sec'' [] None None [intro_title]) [Child ''title'' []]
       = Some intro_title" by code_simp
  have h3: "title_matches ''intro'' (Element ''sec'' [] None None [intro_title])" by code_simp
  have h4: "findall (Element ''sec'' [] None None [intro_title]) [Descendant ''p'' []] = []"
    by code_simp
  from title_only_section_bucket [OF h1 h2 h3 h4, of None]
  have "\<exists>before bucket.
         getSection intro_doc [Descendant ''body'' [], Child ''sec'' []] ''intro'' None = Some bucket
         \<and> bucket \<noteq> []
         \<and> bucket = before @ render_text intro_title @ '': ''
         \<and> suffix '': '' bucket"
    by simp
  with h1 h2 h3 h4 show ?thesis by blast
qed

section \<open>Bodies without sections\<close>

lemma children_in_descendants: "c \<in> set (elem_children e) \<Longrightarrow> c \<in> set (descendants e)"
  by (cases e) auto

lemma findall_Descendant_Child:
  "findall e [Descendant tg ps, Child tg' ps'] =
     concat (map (\<lambda>b. findall b [Child tg' ps']) (findall e [Descendant tg ps]))"
  by (simp add: findall_def)

lemma no_child_if_no_descendant:
  assumes "findall b [Descendant tg ps] = []"
  shows "findall b [Child tg ps] = []"
proof -
  have "\<forall>c \<in> set (descendants b). \<not> matches tg ps c"
    using assms by (simp add: findall_Descendant filter_empty_conv)
  then have "\<forall>c \<in> set (elem_children b). \<not> matches tg ps c"
    using children_in_descendants by blast
  then show ?thesis
    by (simp add: findall_Child filter_empty_conv)
qed

lemma add_top_levels_no_sec:
  assumes "\<forall>t \<in> set tops. findall t [Child ''sec'' []] = []"
  shows "add_top_levels sep ret_str tops =
     ret_str @ concat (map (\<lambda>t. concat (map (\<lambda>sub. render_text sub @ sep) (elem_children t))) tops)"
  using assms
proof (induction tops arbitrary: ret_str)
  case Nil
  show ?case by simp
next
  case (Cons t tops)
  have "find_elem t [Child ''sec'' []] = None"
    using Cons.prems by (simp add: find_elem_None_iff)
  then show ?case
    using Cons by (simp add: add_rendered_eq)
qed

lemma concat_rendered_empty_iff:
  assumes "sep \<noteq> []"
  shows "concat (map (\<lambda>t. concat (map (\<lambda>sub. render_text sub @ sep) (elem_children t))) tops) = []
     \<longleftrightarrow> list_all (\<lambda>t. elem_children t = []) tops"
  using assms by (induction tops) (auto simp: list_all_iff)

text \<open>
  The document \<^verbatim>\<open><article><body><p>Hello</p></body></article>\<close> has no section node,
  and its whole-body field is the rendered paragraph followed by a blank line, both as the
  extractor returns it and in the article that is built.
\<close>

theorem no_sections_counterexample:
  "findall paragraph_doc [Descendant ''sec'' []] = []
   \<and> PMC_extractBody paragraph_doc = Some ''Hello\<newline>\<newline>''
   \<and> \<not> isl (PMC_initializeFromXML utf8_stdout paragraph_doc)
   \<and> pmc_body (projr (PMC_initializeFromXML utf8_stdout paragraph_doc)) = Some ''Hello\<newline>\<newline>''"
  by code_simp

text \<open>
  C6, as amended. For a document in which no body has a section node below it, the five
  canonical fields are absent. The whole-body field is absent exactly when no body has a
  child element; otherwise it is the concatenation, over the bodies and their children
  in document order, of the rendered text of each child followed by a blank line. These
  are the values that the extractors return and the fields of the article that is built;
  no article is built only when the extraction of the date raises.
\<close>

theorem no_sections_fields:
  assumes "list_all (\<lambda>body. findall body [Descendant ''sec'' []] = [])
             (findall xml_element [Descendant ''body'' []])"
  shows "PMC_extractBodySections xml_element = (None, None, None, None, None)
     \<and> PMC_extractBody xml_element =
         (if list_all (\<lambda>body. elem_children body = []) (findall xml_element [Descendant ''body'' []])
          then None
          else Some (concat (map (\<lambda>body. concat (map (\<lambda>sub. render_text sub @ ''\<newline>\<newline>'')
                                                   (elem_children body)))
                             (findall xml_element [Descendant ''body'' []]))))
     \<and> (case PMC_initializeFromXML stdout xml_element of
          Inl raised \<Rightarrow> PMC_extractPublicationDate stdout xml_element = Inl raised
        | Inr article \<Rightarrow>
            pmc_introduction article = None
            \<and> pmc_methods article = None
            \<and> pmc_results article = None
            \<and> pmc_discussion article = None
            \<and> pmc_conclusion article = None
            \<and> pmc_body article =
                (if list_all (\<lambda>body. elem_children body = [])
                      (findall xml_element [Descendant ''body'' []])
                 then None
                 else Some (concat (map (\<lambda>body. concat (map (\<lambda>sub. render_text sub @ ''\<newline>\<newline>'')
                                                          (elem_children body)))
                                    (findall xml_element [Descendant ''body'' []])))))"
proof -
  let ?bodies = "findall xml_element [Descendant ''body'' []]"
  have nosec: "\<forall>b \<in> set ?bodies. findall b [Child ''sec'' []] = []"
    using assms no_child_if_no_descendant by (auto simp: list_all_iff)
  then have secs: "findall xml_element [Descendant ''body'' [], Child ''sec'' []] = []"
    by (simp add: findall_Descendant_Child)
  have sect: "getSection xml_element [Descendant ''body'' [], Child ''sec'' []] name None = None"
    for name
    by (simp add: getSection_eq secs)
  have tuple: "PMC_extractBodySections xml_element = (None, None, None, None, None)"
    by (simp add: PMC_extractBodySections_def getBodySections_eq sect)
  have body: "PMC_extractBody xml_element =
         (if list_all (\<lambda>body. elem_children body = []) ?bodies
          then None
          else Some (concat (map (\<lambda>body. concat (map (\<lambda>sub. render_text sub @ ''\<newline>\<newline>'')
                                                   (elem_children body))) ?bodies)))"
    using concat_rendered_empty_iff [of "''\<newline>\<newline>''" ?bodies]
    by (simp add: PMC_extractBody_def getBody_def add_top_levels_no_sec [OF nosec] Let_def)
  have built: "case PMC_initializeFromXML stdout xml_element of
          Inl raised \<Rightarrow> PMC_extractPublicationDate stdout xml_element = Inl raised
        | Inr article \<Rightarrow>
            pmc_introduction article = None
            \<and> pmc_methods article = None
            \<and> pmc_results article = None
            \<and> pmc_discussion article = None
            \<and> pmc_conclusion article = None
            \<and> pmc_body article = PMC_extractBody xml_element"
    by (cases "PMC_extractPublicationDate stdout xml_element")
       (simp_all add: PMC_initializeFromXML_def tuple)
  show ?thesis
    using tuple body built by (simp only: simp_thms)
qed

text \<open>
  The document with one paragraph under its body, on a standard output that prints.
\<close>

theorem no_sections_fields_witness:
  "list_all (\<lambda>body. findall body [Descendant ''sec'' []] = [])
     (findall paragraph_doc [Descendant ''body'' []])
   \<and> PMC_extractBodySections paragraph_doc = (None, None, None, None, None)
   \<and> PMC_extractBody paragraph_doc = Some ''Hello\<newline>\<newline>''
   \<and> \<not> isl (PMC_initializeFromXML utf8_stdout paragraph_doc)
   \<and> pmc_introduction (projr (PMC_initializeFromXML utf8_stdout paragraph_doc)) = None
   \<and> pmc_methods (projr (PMC_initializeFromXML utf8_stdout paragraph_doc)) = None
   \<and> pmc_results (projr (PMC_initializeFromXML utf8_stdout paragraph_doc)) = None
   \<and> pmc_discussion (projr (PMC_initializeFromXML utf8_stdout paragraph_doc)) = None
   \<and> pmc_conclusion (projr (PMC_initializeFromXML utf8_stdout paragraph_doc)) = None
   \<and> pmc_body (projr (PMC_initializeFromXML utf8_stdout paragraph_doc)) = Some ''Hello\<newline>\<newline>''"
proof -
  have h: "list_all (\<lambda>body. findall body [Descendant ''sec'' []] = [])
     (findall paragraph_doc [Descendant ''body'' []])"
    by code_simp
  have c: "\<not> list_all (\<lambda>body. elem_children body = []) (findall paragraph_doc [Descendant ''body'' []])"
    by code_simp
  have v: "concat (map (\<lambda>body. concat (map (\<lambda>sub. render_text sub @ ''\<newline>\<newline>'') (elem_children body)))
             (findall paragraph_doc [Descendant ''body'' []])) = ''Hello\<newline>\<newline>''"
    by code_simp
  have built: "\<not> isl (PMC_initializeFromXML utf8_stdout paragraph_doc)"
    by code_simp
  then obtain article where r: "PMC_initializeFromXML utf8_stdout paragraph_doc = Inr article"
    by (cases "PMC_initializeFromXML utf8_stdout paragraph_doc") simp_all
  show ?thesis
    using h c v no_sections_fields [OF h, of utf8_stdout] by (simp add: r)
qed

section \<open>Publication dates\<close>











text \<open>
  C4. The year of the date node is the letter e with an acute accent. \<^verbatim>\<open>int\<close> fails
  on it, the handler prints the exception, whose message shows the letter, and on a
  standard output in ASCII \<^verbatim>\<open>print\<close> raises \<^verbatim>\<open>UnicodeEncodeError\<close>: in both
  schemas the exception leaves the date extractor, and no article is built. On a standard
  output in UTF-8 the same documents give an absent date. With the year \<^verbatim>\<open>abcd\<close>,
  whose message is ASCII, the date is absent on both standard outputs, the article is
  built, and it differs from the article of the same document with the year \<^verbatim>\<open>2020\<close>
  in the date only (and in the document it refers to).
\<close>

theorem date_handler_print_raises:
  "py_int (Some e_acute) = Inl (InvalidLiteral e_acute)
   \<and> PubMed_publicationDate_try (pubmed_doc e_acute) = Inl (InvalidLiteral e_acute)
   \<and> PMC_publicationDate_try (pmc_doc e_acute) = Inl (InvalidLiteral e_acute)
   \<and> ascii_stdout (InvalidLiteral e_acute) = Some UnicodeEncodeError
   \<and> PubMed_extractPublicationDate ascii_stdout (pubmed_doc e_acute) = Inl UnicodeEncodeError
   \<and> PubMed_initializeFromXML ascii_stdout (pubmed_doc e_acute) = Inl UnicodeEncodeError
   \<and> PMC_extractPublicationDate ascii_stdout (pmc_doc e_acute) = Inl UnicodeEncodeError
   \<and> PMC_initializeFromXML ascii_stdout (pmc_doc e_acute) = Inl UnicodeEncodeError
   \<and> PubMed_extractPublicationDate utf8_stdout (pubmed_doc e_acute) = Inr None
   \<and> PMC_extractPublicationDate utf8_stdout (pmc_doc e_acute) = Inr None
   \<and> PubMed_extractPublicationDate ascii_stdout (pubmed_doc ''abcd'') = Inr None
   \<and> PMC_extractPublicationDate ascii_stdout (pmc_doc ''abcd'') = Inr None
   \<and> PubMed_extractPublicationDate ascii_stdout (pubmed_doc ''2020'') = Inr (Some (Date 2020 5 1))
   \<and> PMC_extractPublicationDate ascii_stdout (pmc_doc ''2020'') = Inr (Some (Date 2020 1 1))
   \<and> \<not> isl (PubMed_initializeFromXML ascii_stdout (pubmed_doc ''abcd''))
   \<and> \<not> isl (PubMed_initializeFromXML ascii_stdout (pubmed_doc ''2020''))
   \<and> projr (PubMed_initializeFromXML ascii_stdout (pubmed_doc ''abcd''))
       = (projr (PubMed_initializeFromXML ascii_stdout (pubmed_doc ''2020'')))
           \<lparr> pm_publication_date := None, pm_xml := pubmed_doc ''abcd'' \<rparr>
   \<and> pm_title (projr (PubMed_initializeFromXML ascii_stdout (pubmed_doc ''abcd''))) = Some ''A study''
   \<and> \<not> isl (PMC_initializeFromXML ascii_stdout (pmc_doc ''abcd''))
   \<and> \<not> isl (PMC_initializeFromXML ascii_stdout (pmc_doc ''2020''))
   \<and> projr (PMC_initializeFromXML ascii_stdout (pmc_doc ''abcd''))
       = (projr (PMC_initializeFromXML ascii_stdout (pmc_doc ''2020'')))
           \<lparr> pmc_publication_date := None, pmc_xml := pmc_doc ''abcd'' \<rparr>
   \<and> pmc_journal (projr (PMC_initializeFromXML ascii_stdout (pmc_doc ''abcd''))) = Some ''A journal''"
  by code_simp

end
